theory Spec2Isabelle
  imports Main "HOL-Library.Sublist" "HOL-Library.List_Lexorder" "HOL-Library.Char_ord"
begin

section \<open>Go strings, runes and UTF-8\<close>

text \<open>
  A Go string is a sequence of bytes, here a \<^typ>\<open>string\<close> whose characters are the
  bytes. The statement \<^verbatim>\<open>for _, char := range name\<close> does not walk the bytes: it
  decodes one UTF-8 sequence at a time, yields the code point (a rune) and advances by the
  width of the sequence; a byte that starts no valid sequence yields the replacement rune
  U+FFFD and advances by one byte. The conversion \<^verbatim>\<open>string(char)\<close> encodes a rune as
  UTF-8 again. Both are part of the language (package \<^verbatim>\<open>unicode/utf8\<close>), and are
  written out here as the library has them.
\<close>

abbreviation (input) byte :: "char \<Rightarrow> nat" where
  "byte c \<equiv> of_char c"

definition RuneError :: nat where
  "RuneError = 0xFFFD"

definition locb :: nat where "locb = 0x80"
definition hicb :: nat where "hicb = 0xBF"

text \<open>The table \<^verbatim>\<open>first\<close> of \<^verbatim>\<open>unicode/utf8\<close>: the width announced by a lead byte
  (0 for a byte that cannot lead), and the range accepted for the second byte.\<close>

definition lead_size :: "nat \<Rightarrow> nat" where
  "lead_size b =
     (if b < 0x80 then 1
      else if b < 0xC2 then 0
      else if b < 0xE0 then 2
      else if b < 0xF0 then 3
      else if b < 0xF5 then 4
      else 0)"

definition accept_lo :: "nat \<Rightarrow> nat" where
  "accept_lo b = (if b = 0xE0 then 0xA0 else if b = 0xF0 then 0x90 else locb)"

definition accept_hi :: "nat \<Rightarrow> nat" where
  "accept_hi b = (if b = 0xED then 0x9F else if b = 0xF4 then 0x8F else hicb)"

text \<open>\<^verbatim>\<open>utf8.DecodeRuneInString\<close>: the rune at the front of the string and its width.
  The masks \<^verbatim>\<open>s0 & mask2\<close>, \<^verbatim>\<open>s1 & maskx\<close> are remainders, the shifts are
  multiplications, and the bit ranges joined by \<^verbatim>\<open>|\<close> are disjoint, so they add.\<close>

fun DecodeRuneInString :: "string \<Rightarrow> nat \<times> nat" where
  "DecodeRuneInString [] = (RuneError, 0)"
| "DecodeRuneInString (c0 # cs) =
     (let s0 = byte c0; sz = lead_size s0 in
      if s0 < 0x80 then (s0, 1)
      else if sz = 0 then (RuneError, 1)
      else if length (c0 # cs) < sz then (RuneError, 1)
      else
        let s1 = byte (cs ! 0) in
        if s1 < accept_lo s0 \<or> accept_hi s0 < s1 then (RuneError, 1)
        else if sz \<le> 2 then ((s0 mod 32) * 64 + s1 mod 64, 2)
        else
          let s2 = byte (cs ! 1) in
          if s2 < locb \<or> hicb < s2 then (RuneError, 1)
          else if sz \<le> 3 then ((s0 mod 16) * 4096 + (s1 mod 64) * 64 + s2 mod 64, 3)
          else
            let s3 = byte (cs ! 2) in
            if s3 < locb \<or> hicb < s3 then (RuneError, 1)
            else ((s0 mod 8) * 262144 + (s1 mod 64) * 4096 + (s2 mod 64) * 64
                    + s3 mod 64, 4))"

text \<open>\<^verbatim>\<open>string(r)\<close> for a rune \<open>r\<close>: its UTF-8 encoding; a surrogate or a value
  beyond U+10FFFF is encoded as U+FFFD.\<close>

definition encode3 :: "nat \<Rightarrow> string" where
  "encode3 r = [char_of (0xE0 + r div 4096), char_of (0x80 + (r div 64) mod 64),
                char_of (0x80 + r mod 64)]"

definition EncodeRune :: "nat \<Rightarrow> string" where
  "EncodeRune r =
     (if r \<le> 0x7F then [char_of r]
      else if r \<le> 0x7FF then [char_of (0xC0 + r div 64), char_of (0x80 + r mod 64)]
      else if r > 0x10FFFF \<or> (0xD800 \<le> r \<and> r \<le> 0xDFFF) then encode3 RuneError
      else if r \<le> 0xFFFF then encode3 r
      else [char_of (0xF0 + r div 262144), char_of (0x80 + (r div 4096) mod 64),
            char_of (0x80 + (r div 64) mod 64), char_of (0x80 + r mod 64)])"

text \<open>\<^verbatim>\<open>utf8.ValidString\<close>: no position of the string decodes to the error rune
  of width one.\<close>

lemma DecodeRuneInString_width:
  "s \<noteq> [] \<Longrightarrow> 1 \<le> snd (DecodeRuneInString s) \<and> snd (DecodeRuneInString s) \<le> length s"
  by (cases s) (auto simp: Let_def lead_size_def Suc_le_eq split: if_splits)

function ValidString :: "string \<Rightarrow> bool" where
  "ValidString s =
     (if s = [] then True
      else let (r, n) = DecodeRuneInString s in
           \<not> (r = RuneError \<and> n = 1) \<and> ValidString (drop n s))"
  by pat_completeness auto
termination
proof (relation "measure length")
  show "wf (measure length)" by simp
next
  fix s :: string and x :: "nat \<times> nat" and r n :: nat
  assume "s \<noteq> []" "x = DecodeRuneInString s" "(r, n) = x"
  then have "1 \<le> n" using DecodeRuneInString_width [of s] by (metis snd_conv)
  with \<open>s \<noteq> []\<close> show "(drop n s, s) \<in> measure length" by simp
qed

text \<open>The decimal numeral of a number, as \<^verbatim>\<open>%d\<close> prints it.\<close>

function Itoa :: "nat \<Rightarrow> string" where
  "Itoa n = (if n < 10 then [char_of (48 + n)] else Itoa (n div 10) @ [char_of (48 + n mod 10)])"
  by pat_completeness auto
termination
  by (relation "measure id") auto

section \<open>NameSanitizer: \<^verbatim>\<open>sanitizeBranchName\<close> (cmd/switch.go)\<close>

text \<open>The loop of \<^verbatim>\<open>sanitizeBranchName\<close>: \<open>name\<close> is what is left to range over,
  \<open>result\<close> the string built so far.\<close>

function sanitize_loop :: "string \<Rightarrow> string \<Rightarrow> string" where
  "sanitize_loop name result =
     (if name = [] then result
      else let (char, n) = DecodeRuneInString name in
           sanitize_loop (drop n name)
             (if char = 0x2F then result @ ''-'' else result @ EncodeRune char))"
  by pat_completeness auto
termination
proof (relation "measure (\<lambda>(name, result). length name)")
  show "wf (measure (\<lambda>(name, result). length name))" by simp
next
  fix name result :: string and x :: "nat \<times> nat" and char n :: nat
  assume "name \<noteq> []" "x = DecodeRuneInString name" "(char, n) = x"
  then have "1 \<le> n" using DecodeRuneInString_width [of name] by (metis snd_conv)
  with \<open>name \<noteq> []\<close>
  show "((drop n name, if char = 0x2F then result @ ''-'' else result @ EncodeRune char),
          (name, result)) \<in> measure (\<lambda>(name, result). length name)"
    by simp
qed

definition sanitizeBranchName :: "string \<Rightarrow> string" where
  "sanitizeBranchName name = sanitize_loop name ''''"

text \<open>What the loop appends for one rune.\<close>

definition piece :: "nat \<Rightarrow> string" where
  "piece r = (if r = 0x2F then ''-'' else EncodeRune r)"


text \<open>The byte-wise replacement the specification describes: every \<^verbatim>\<open>/\<close> becomes
  \<^verbatim>\<open>-\<close>, every other byte stays.\<close>

definition slash_to_dash :: "char \<Rightarrow> char" where
  "slash_to_dash c = (if c = CHR ''/'' then CHR ''-'' else c)"


section \<open>The directory name of \<^verbatim>\<open>checkoutCmd\<close>\<close>

text \<open>\<^verbatim>\<open>filepath.Base\<close> on a system whose separator is \<^verbatim>\<open>/\<close> and whose
  volume names are empty: strip the trailing separators, keep what follows the last
  separator, and answer \<^verbatim>\<open>/\<close> when nothing is left.\<close>

definition strip_trailing_slashes :: "string \<Rightarrow> string" where
  "strip_trailing_slashes path = rev (dropWhile (\<lambda>c. c = CHR ''/'') (rev path))"

definition last_element :: "string \<Rightarrow> string" where
  "last_element path = rev (takeWhile (\<lambda>c. c \<noteq> CHR ''/'') (rev path))"

definition filepath_Base :: "string \<Rightarrow> string" where
  "filepath_Base path =
     (if path = [] then ''.''
      else let p = last_element (strip_trailing_slashes path)
           in if p = [] then ''/'' else p)"

definition checkout_dirName :: "string \<Rightarrow> string" where
  "checkout_dirName commitish =
     (let dirName = filepath_Base commitish
      in if commitish \<noteq> dirName then sanitize_loop commitish '''' else dirName)"



section \<open>Package \<^verbatim>\<open>path/filepath\<close>\<close>

text \<open>
  The functions of \<^verbatim>\<open>path/filepath\<close> that the commands call, for a system whose
  separator is \<^verbatim>\<open>/\<close> and whose volume names are empty. They work on the strings the
  program holds. \<^verbatim>\<open>Clean\<close> is the library's lexical normal form: empty elements and
  \<^verbatim>\<open>.\<close> are dropped, an inner \<^verbatim>\<open>..\<close> removes the element before it, a
  \<^verbatim>\<open>..\<close> at the root of a rooted path is dropped, and the empty result is \<^verbatim>\<open>.\<close>.
\<close>

definition filepath_IsAbs :: "string \<Rightarrow> bool" where
  "filepath_IsAbs path = (case path of [] \<Rightarrow> False | c # _ \<Rightarrow> c = CHR ''/'')"

fun splitOn :: "char \<Rightarrow> string \<Rightarrow> string list" where
  "splitOn sep [] = [[]]"
| "splitOn sep (c # cs) =
     (if c = sep then [] # splitOn sep cs
      else (case splitOn sep cs of [] \<Rightarrow> [[c]] | w # ws \<Rightarrow> (c # w) # ws))"

fun join_elems :: "string list \<Rightarrow> string" where
  "join_elems [] = []"
| "join_elems [e] = e"
| "join_elems (e # f # es) = e @ ''/'' @ join_elems (f # es)"

text \<open>One element of the path is read; \<open>st\<close> holds the elements kept so far, the
  last one first.\<close>
definition clean_step :: "bool \<Rightarrow> string list \<Rightarrow> string \<Rightarrow> string list" where
  "clean_step rooted st e =
     (if e = [] \<or> e = ''.'' then st
      else if e = ''..'' then
        (case st of
           [] \<Rightarrow> if rooted then [] else [''..'']
         | t # ts \<Rightarrow> if t = ''..'' then ''..'' # st else ts)
      else e # st)"

definition clean_elems :: "bool \<Rightarrow> string list \<Rightarrow> string list" where
  "clean_elems rooted es = rev (foldl (clean_step rooted) [] es)"

definition filepath_Clean :: "string \<Rightarrow> string" where
  "filepath_Clean path =
     (let es = clean_elems (filepath_IsAbs path) (splitOn (CHR ''/'') path)
      in if filepath_IsAbs path then ''/'' @ join_elems es
         else if es = [] then ''.'' else join_elems es)"

definition filepath_Join :: "string \<Rightarrow> string \<Rightarrow> string" where
  "filepath_Join a b =
     (if a \<noteq> [] then filepath_Clean (a @ ''/'' @ b)
      else if b \<noteq> [] then filepath_Clean b
      else [])"

definition filepath_Dir :: "string \<Rightarrow> string" where
  "filepath_Dir path = filepath_Clean (rev (dropWhile (\<lambda>c. c \<noteq> CHR ''/'') (rev path)))"

text \<open>A file name: one element of a path that is not empty, not \<^verbatim>\<open>.\<close> or \<^verbatim>\<open>..\<close>, and
  holds no separator.\<close>

definition wf_elem :: "string \<Rightarrow> bool" where
  "wf_elem e = (e \<noteq> [] \<and> e \<noteq> ''.'' \<and> e \<noteq> ''..'' \<and> CHR ''/'' \<notin> set e)"

text \<open>A name whose last element is empty (a trailing separator), \<^verbatim>\<open>.\<close> or \<^verbatim>\<open>..\<close>
  can only denote a directory: the system calls that create a file or a link refuse it,
  and those that look a node up demand a directory.\<close>

definition names_dir :: "string \<Rightarrow> bool" where
  "names_dir name =
     (let e = last (splitOn (CHR ''/'') name) in e = [] \<or> e = ''.'' \<or> e = ''..'')"

section \<open>The file tree and package \<^verbatim>\<open>os\<close>\<close>

text \<open>
  The file system is the commands' external collaborator. It is modelled as a table from
  real paths (the list of the names from the root down) to nodes: regular files with their
  bytes and permission bits, directories with their permission bits, and symbolic links
  with the target string they store. The root directory always exists. A node is part of
  the tree when every proper prefix of its path is a directory of the table; other entries
  of the table cannot be reached. The process has the access rights it needs; permission
  bits are data that \<^verbatim>\<open>Chmod\<close> writes and \<^verbatim>\<open>Stat\<close> reads.

  A name handed to a system call is resolved as the kernel does it, element by element
  from the root or from the working directory: an empty element and \<^verbatim>\<open>.\<close> stay where
  they are, \<^verbatim>\<open>..\<close> goes to the parent of the directory reached, and a symbolic link met on
  the way is replaced by its target, read from the directory that holds the link. At most
  40 links are followed in one resolution, then the call fails with \<^verbatim>\<open>ELOOP\<close>. A link in
  last position is followed or not as the call demands (\<^verbatim>\<open>Stat\<close> against \<^verbatim>\<open>Lstat\<close>).
\<close>

type_synonym path = "string list"

datatype node =
    File (content: string) (perm: nat)
  | Dir (perm: nat)
  | Symlink (target: string)

datatype errno = ENOENT | ENOTDIR | EEXIST | EISDIR | ELOOP | ENOTEMPTY | EINVAL

datatype error =
    PathError string string errno
  | LinkError string string string errno
  | Errorf string
  | Wrapf string error

record filesys =
  nodes :: "(path \<times> node) list"
  umask :: nat
  cwd :: path

text \<open>Go's \<^verbatim>\<open>error\<close> values: the errors of package \<^verbatim>\<open>os\<close> with the operation, the
  name(s) and the error number; \<^verbatim>\<open>fmt.Errorf\<close> without a wrapped error (the message);
  and \<^verbatim>\<open>fmt.Errorf("...: %w", err)\<close> (the text before the colon, and the cause).\<close>

definition is_dir :: "node \<Rightarrow> bool" where
  "is_dir n = (case n of Dir _ \<Rightarrow> True | _ \<Rightarrow> False)"

text \<open>The node at a real path: the parent has to be a directory that is part of the tree
  itself. No link is followed here; following links is the work of \<open>resolve\<close>.\<close>

function lookup :: "(path \<times> node) list \<Rightarrow> path \<Rightarrow> errno + node" where
  "lookup ns p =
     (if p = [] then Inr (Dir 493)
      else case lookup ns (butlast p) of
             Inl e \<Rightarrow> Inl e
           | Inr (Dir _) \<Rightarrow> (case map_of ns p of None \<Rightarrow> Inl ENOENT | Some n \<Rightarrow> Inr n)
           | Inr _ \<Rightarrow> Inl ENOTDIR)"
  by pat_completeness auto
termination
  by (relation "measure (\<lambda>(ns, p). length p)") auto

text \<open>Resolution of the elements \<open>c # cs\<close> of a name from the directory \<open>cur\<close>, with
  \<open>k\<close> links left to follow. The answer is the real path of what the name denotes; when
  only the last element is missing, it is the path where the name would be created.
  \<open>follow_last\<close> says whether a link in last position is followed.\<close>

fun resolve :: "(path \<times> node) list \<Rightarrow> nat \<Rightarrow> path \<Rightarrow> string list \<Rightarrow> bool \<Rightarrow> errno + path" where
  "resolve ns k cur [] follow_last = Inr cur"
| "resolve ns k cur (c # cs) follow_last =
     (if c = [] \<or> c = ''.'' then resolve ns k cur cs follow_last
      else if c = ''..'' then resolve ns k (butlast cur) cs follow_last
      else
        (case lookup ns (cur @ [c]) of
           Inl e \<Rightarrow> if cs = [] then Inr (cur @ [c]) else Inl e
         | Inr (Dir _) \<Rightarrow> resolve ns k (cur @ [c]) cs follow_last
         | Inr (File _ _) \<Rightarrow> if cs = [] then Inr (cur @ [c]) else Inl ENOTDIR
         | Inr (Symlink t) \<Rightarrow>
             if cs = [] \<and> \<not> follow_last then Inr (cur @ [c])
             else if t = [] then Inl ENOENT
             else
               (case k of
                  0 \<Rightarrow> Inl ELOOP
                | Suc k' \<Rightarrow>
                    resolve ns k' (if filepath_IsAbs t then [] else cur)
                      (splitOn (CHR ''/'') t @ cs) follow_last)))"

text \<open>The real path of a name. The empty name denotes nothing. Separators at the end of
  a name are no elements of their own; they make the call follow a link in last
  position.\<close>

definition resolve_name :: "filesys \<Rightarrow> string \<Rightarrow> bool \<Rightarrow> errno + path" where
  "resolve_name fs name follow_last =
     (if name = [] then Inl ENOENT
      else
        let elems = splitOn (CHR ''/'') name in
        resolve (nodes fs) 40 (if filepath_IsAbs name then [] else cwd fs)
          (rev (dropWhile (\<lambda>c. c = []) (rev elems)))
          (follow_last \<or> last elems = []))"

text \<open>Changes of the table: a new node with nothing below it, a node replaced in place,
  a subtree removed.\<close>

definition mknod :: "path \<Rightarrow> node \<Rightarrow> (path \<times> node) list \<Rightarrow> (path \<times> node) list" where
  "mknod p n ns = (p, n) # filter (\<lambda>(q, _). \<not> prefix p q) ns"

definition setnode :: "path \<Rightarrow> node \<Rightarrow> (path \<times> node) list \<Rightarrow> (path \<times> node) list" where
  "setnode p n ns = (p, n) # filter (\<lambda>(q, _). q \<noteq> p) ns"

definition without :: "path \<Rightarrow> (path \<times> node) list \<Rightarrow> (path \<times> node) list" where
  "without p ns = filter (\<lambda>(q, _). \<not> prefix p q) ns"

unbundle bit_operations_syntax

text \<open>\<^verbatim>\<open>perm &^ umask\<close>.\<close>

definition clear_bits :: "nat \<Rightarrow> nat \<Rightarrow> nat" where
  "clear_bits m b = m - (m AND b)"

text \<open>\<^verbatim>\<open>os.Stat\<close> and \<^verbatim>\<open>os.Lstat\<close>. A name that can only denote a directory (it ends in
  a separator or a dot element) is refused for anything else.\<close>

definition os_Stat :: "filesys \<Rightarrow> string \<Rightarrow> error + node" where
  "os_Stat fs name =
     (case resolve_name fs name True of
        Inl e \<Rightarrow> Inl (PathError ''stat'' name e)
      | Inr q \<Rightarrow>
          (case lookup (nodes fs) q of
             Inl e \<Rightarrow> Inl (PathError ''stat'' name e)
           | Inr n \<Rightarrow>
               if names_dir name \<and> \<not> is_dir n then Inl (PathError ''stat'' name ENOTDIR)
               else Inr n))"

definition os_Lstat :: "filesys \<Rightarrow> string \<Rightarrow> error + node" where
  "os_Lstat fs name =
     (case resolve_name fs name False of
        Inl e \<Rightarrow> Inl (PathError ''lstat'' name e)
      | Inr q \<Rightarrow>
          (case lookup (nodes fs) q of
             Inl e \<Rightarrow> Inl (PathError ''lstat'' name e)
           | Inr n \<Rightarrow>
               if names_dir name \<and> \<not> is_dir n then Inl (PathError ''lstat'' name ENOTDIR)
               else Inr n))"

definition IsNotExist :: "error \<Rightarrow> bool" where
  "IsNotExist err =
     (case err of PathError _ _ e \<Rightarrow> e = ENOENT | LinkError _ _ _ e \<Rightarrow> e = ENOENT | _ \<Rightarrow> False)"

text \<open>A procedure of the program that returns an \<^verbatim>\<open>error\<close> and changes the tree is a
  function to the pair of the error (\<open>None\<close> for \<^verbatim>\<open>nil\<close>) and the tree it leaves,
  also when it fails.\<close>

definition os_Mkdir :: "string \<Rightarrow> nat \<Rightarrow> filesys \<Rightarrow> error option \<times> filesys" where
  "os_Mkdir name pm fs =
     (case resolve_name fs name False of
        Inl e \<Rightarrow> (Some (PathError ''mkdir'' name e), fs)
      | Inr q \<Rightarrow>
          (case lookup (nodes fs) q of
             Inr _ \<Rightarrow> (Some (PathError ''mkdir'' name EEXIST), fs)
           | Inl _ \<Rightarrow>
               (case lookup (nodes fs) (butlast q) of
                  Inr (Dir _) \<Rightarrow>
                    (None, fs\<lparr>nodes := mknod q (Dir (clear_bits pm (umask fs))) (nodes fs)\<rparr>)
                | Inr _ \<Rightarrow> (Some (PathError ''mkdir'' name ENOTDIR), fs)
                | Inl e \<Rightarrow> (Some (PathError ''mkdir'' name e), fs))))"

text \<open>\<^verbatim>\<open>os.MkdirAll\<close> works on the name: nothing to do for a directory, an error for
  another node; otherwise the parent, which is the name cut before its last element, is
  made first when it is not empty, then the directory itself, and a failure of
  \<^verbatim>\<open>Mkdir\<close> is forgiven when the directory is there after all.\<close>

definition parent_name :: "string \<Rightarrow> string" where
  "parent_name path =
     butlast (rev (dropWhile (\<lambda>c. c \<noteq> CHR ''/'')
                     (dropWhile (\<lambda>c. c = CHR ''/'') (rev path))))"

lemma parent_name_shorter: "parent_name path \<noteq> [] \<Longrightarrow> length (parent_name path) < length path"
proof -
  let ?s = "dropWhile (\<lambda>c. c \<noteq> CHR ''/'') (dropWhile (\<lambda>c. c = CHR ''/'') (rev path))"
  assume ne: "parent_name path \<noteq> []"
  have 1: "length (parent_name path) = length ?s - 1"
    by (simp only: parent_name_def length_butlast length_rev)
  have "length ?s \<le> length (dropWhile (\<lambda>c. c = CHR ''/'') (rev path))"
    by (rule length_dropWhile_le)
  also have "\<dots> \<le> length (rev path)" by (rule length_dropWhile_le)
  finally have 2: "length ?s \<le> length path" by (simp only: length_rev)
  have 3: "length (parent_name path) \<noteq> 0" using ne by (simp only: length_0_conv not_False_eq_True)
  show ?thesis using 1 2 3 by linarith
qed

text \<open>The last step of \<^verbatim>\<open>MkdirAll\<close>: \<^verbatim>\<open>Mkdir\<close>, and the second look when it
  fails.\<close>

definition mkdir_last :: "string \<Rightarrow> nat \<Rightarrow> filesys \<Rightarrow> error option \<times> filesys" where
  "mkdir_last path pm fs =
     (case os_Mkdir path pm fs of
        (None, fs2) \<Rightarrow> (None, fs2)
      | (Some err, fs2) \<Rightarrow>
          (case os_Lstat fs2 path of
             Inr dir \<Rightarrow> if is_dir dir then (None, fs2) else (Some err, fs2)
           | Inl _ \<Rightarrow> (Some err, fs2)))"

function os_MkdirAll :: "string \<Rightarrow> nat \<Rightarrow> filesys \<Rightarrow> error option \<times> filesys" where
  "os_MkdirAll path pm fs =
     (case os_Stat fs path of
        Inr dir \<Rightarrow>
          if is_dir dir then (None, fs)
          else (Some (PathError ''mkdir'' path ENOTDIR), fs)
      | Inl _ \<Rightarrow>
          if parent_name path \<noteq> [] then
            (case os_MkdirAll (parent_name path) pm fs of
               (Some err, fs1) \<Rightarrow> (Some err, fs1)
             | (None, fs1) \<Rightarrow> mkdir_last path pm fs1)
          else mkdir_last path pm fs)"
  by pat_completeness auto
termination
proof (relation "measure (\<lambda>(path, pm, fs). length path)")
  show "wf (measure (\<lambda>(path, pm, fs). length path))" by (rule wf_measure)
next
  fix path :: string and pm :: nat and fs :: filesys and x :: error
  assume "parent_name path \<noteq> []"
  then have "length (parent_name path) < length path" by (rule parent_name_shorter)
  then show "((parent_name path, pm, fs), (path, pm, fs)) \<in> measure (\<lambda>(path, pm, fs). length path)"
    by (simp only: in_measure split_conv)
qed

text \<open>\<^verbatim>\<open>os.RemoveAll\<close> removes the node the name denotes (a link itself, not what it
  points to) and everything below it, and succeeds when there is nothing to remove. It
  refuses the empty name and a name that ends in a dot element, and removes nothing then.
  The commands ignore the error it returns, so only the resulting tree is modelled.\<close>

definition os_RemoveAll :: "string \<Rightarrow> filesys \<Rightarrow> filesys" where
  "os_RemoveAll name fs =
     (if name = [] \<or> last (splitOn (CHR ''/'') name) = ''.''
         \<or> last (splitOn (CHR ''/'') name) = ''..''
      then fs
      else
        (case resolve_name fs name False of
           Inl _ \<Rightarrow> fs
         | Inr q \<Rightarrow> fs\<lparr>nodes := without q (nodes fs)\<rparr>))"

definition os_Symlink :: "string \<Rightarrow> string \<Rightarrow> filesys \<Rightarrow> error option \<times> filesys" where
  "os_Symlink oldname newname fs =
     (case resolve_name fs newname False of
        Inl e \<Rightarrow> (Some (LinkError ''symlink'' oldname newname e), fs)
      | Inr q \<Rightarrow>
          (case lookup (nodes fs) q of
             Inr _ \<Rightarrow> (Some (LinkError ''symlink'' oldname newname EEXIST), fs)
           | Inl e0 \<Rightarrow>
               if names_dir newname then (Some (LinkError ''symlink'' oldname newname e0), fs)
               else
                 (case lookup (nodes fs) (butlast q) of
                    Inr (Dir _) \<Rightarrow> (None, fs\<lparr>nodes := mknod q (Symlink oldname) (nodes fs)\<rparr>)
                  | Inr _ \<Rightarrow> (Some (LinkError ''symlink'' oldname newname ENOTDIR), fs)
                  | Inl e \<Rightarrow> (Some (LinkError ''symlink'' oldname newname e), fs))))"

text \<open>An open file is the name it was opened under and the real path of its node.
  \<^verbatim>\<open>os.Create\<close> opens with \<^verbatim>\<open>O_RDWR|O_CREATE|O_TRUNC\<close> and mode \<^verbatim>\<open>0666\<close> (438): an
  existing file is emptied and keeps its mode, and a link whose target is missing has the
  target created. \<^verbatim>\<open>io.Copy\<close> reads what the source file holds at that moment.\<close>

type_synonym open_file = "string \<times> path"

definition os_Open :: "string \<Rightarrow> filesys \<Rightarrow> error + open_file" where
  "os_Open name fs =
     (case resolve_name fs name True of
        Inl e \<Rightarrow> Inl (PathError ''open'' name e)
      | Inr q \<Rightarrow>
          (case lookup (nodes fs) q of
             Inl e \<Rightarrow> Inl (PathError ''open'' name e)
           | Inr n \<Rightarrow>
               if names_dir name \<and> \<not> is_dir n then Inl (PathError ''open'' name ENOTDIR)
               else Inr (name, q)))"

definition os_Create :: "string \<Rightarrow> filesys \<Rightarrow> (error + open_file) \<times> filesys" where
  "os_Create name fs =
     (if names_dir name then (Inl (PathError ''open'' name EISDIR), fs)
      else
      case resolve_name fs name True of
        Inl e \<Rightarrow> (Inl (PathError ''open'' name e), fs)
      | Inr q \<Rightarrow>
          (case lookup (nodes fs) q of
             Inr (File c m) \<Rightarrow> (Inr (name, q), fs\<lparr>nodes := setnode q (File [] m) (nodes fs)\<rparr>)
           | Inr (Dir _) \<Rightarrow> (Inl (PathError ''open'' name EISDIR), fs)
           | Inr (Symlink _) \<Rightarrow> (Inl (PathError ''open'' name ELOOP), fs)
           | Inl _ \<Rightarrow>
               (case lookup (nodes fs) (butlast q) of
                  Inr (Dir _) \<Rightarrow>
                    (Inr (name, q),
                     fs\<lparr>nodes := mknod q (File [] (clear_bits 438 (umask fs))) (nodes fs)\<rparr>)
                | Inr _ \<Rightarrow> (Inl (PathError ''open'' name ENOTDIR), fs)
                | Inl e \<Rightarrow> (Inl (PathError ''open'' name e), fs))))"

definition io_Copy :: "open_file \<Rightarrow> open_file \<Rightarrow> filesys \<Rightarrow> error option \<times> filesys" where
  "io_Copy dst src fs =
     (case lookup (nodes fs) (snd src) of
        Inr (File c _) \<Rightarrow>
          (case lookup (nodes fs) (snd dst) of
             Inr (File _ m) \<Rightarrow> (None, fs\<lparr>nodes := setnode (snd dst) (File c m) (nodes fs)\<rparr>)
           | _ \<Rightarrow> (Some (PathError ''write'' (fst dst) EINVAL), fs))
      | Inr (Dir _) \<Rightarrow> (Some (PathError ''write'' (fst dst) EISDIR), fs)
      | _ \<Rightarrow> (Some (PathError ''read'' (fst src) EINVAL), fs))"

definition os_Chmod :: "string \<Rightarrow> nat \<Rightarrow> filesys \<Rightarrow> error option \<times> filesys" where
  "os_Chmod name mode fs =
     (case resolve_name fs name True of
        Inl e \<Rightarrow> (Some (PathError ''chmod'' name e), fs)
      | Inr q \<Rightarrow>
          (case lookup (nodes fs) q of
             Inr (File c _) \<Rightarrow>
               if names_dir name then (Some (PathError ''chmod'' name ENOTDIR), fs)
               else (None, fs\<lparr>nodes := setnode q (File c mode) (nodes fs)\<rparr>)
           | Inr (Dir _) \<Rightarrow> (None, fs\<lparr>nodes := setnode q (Dir mode) (nodes fs)\<rparr>)
           | Inr (Symlink _) \<Rightarrow> (Some (PathError ''chmod'' name ELOOP), fs)
           | Inl e \<Rightarrow> (Some (PathError ''chmod'' name e), fs)))"

text \<open>\<^verbatim>\<open>os.ReadDir\<close>: the entries of a directory sorted by file name, each with the
  kind of node it is (links not followed). The directory is opened as a directory, so
  another node is refused by \<^verbatim>\<open>open\<close>.\<close>

definition children :: "(path \<times> node) list \<Rightarrow> path \<Rightarrow> string list" where
  "children ns q =
     sort (remdups (map (\<lambda>(r, _). last r)
                     (filter (\<lambda>(r, _). r \<noteq> [] \<and> butlast r = q \<and> wf_elem (last r)) ns)))"

definition os_ReadDir :: "filesys \<Rightarrow> string \<Rightarrow> error + (string \<times> bool) list" where
  "os_ReadDir fs name =
     (case resolve_name fs name True of
        Inl e \<Rightarrow> Inl (PathError ''open'' name e)
      | Inr q \<Rightarrow>
          (case lookup (nodes fs) q of
             Inl e \<Rightarrow> Inl (PathError ''open'' name e)
           | Inr (Dir _) \<Rightarrow>
               Inr (map (\<lambda>c. (c, (case lookup (nodes fs) (q @ [c]) of Inr n \<Rightarrow> is_dir n | Inl _ \<Rightarrow> False)))
                      (children (nodes fs) q))
           | Inr _ \<Rightarrow> Inl (PathError ''open'' name ENOTDIR)))"

section \<open>ShareStore: \<^verbatim>\<open>persist\<close> (cmd/persist.go)\<close>

text \<open>
  \<^verbatim>\<open>copyDir\<close> calls itself for every subdirectory, and nothing in it bounds the depth:
  when the destination lies inside the source, each level finds the directory the level
  above has just made. The model takes the number of nested calls allowed as \<open>fuel\<close>
  and answers \<open>None\<close> when it is used up; every function that reaches \<^verbatim>\<open>copyDir\<close>
  passes the fuel on.
\<close>

definition copyFile :: "string \<Rightarrow> string \<Rightarrow> filesys \<Rightarrow> error option \<times> filesys" where
  "copyFile src dst fs =
     (case os_Open src fs of
        Inl err \<Rightarrow> (Some err, fs)
      | Inr sourceFile \<Rightarrow>
          (case os_Create dst fs of
             (Inl err, fs1) \<Rightarrow> (Some err, fs1)
           | (Inr destFile, fs1) \<Rightarrow>
               (case io_Copy destFile sourceFile fs1 of
                  (Some err, fs2) \<Rightarrow> (Some err, fs2)
                | (None, fs2) \<Rightarrow>
                    (case os_Stat fs2 src of
                       Inl err \<Rightarrow> (Some err, fs2)
                     | Inr srcInfo \<Rightarrow> os_Chmod dst (perm srcInfo) fs2))))"

fun copyDir :: "nat \<Rightarrow> string \<Rightarrow> string \<Rightarrow> filesys \<Rightarrow> (error option \<times> filesys) option"
  and copyDir_entries ::
    "nat \<Rightarrow> string \<Rightarrow> string \<Rightarrow> (string \<times> bool) list \<Rightarrow> filesys \<Rightarrow> (error option \<times> filesys) option"
where
  "copyDir 0 src dst fs = None"
| "copyDir (Suc fuel) src dst fs =
     (case os_Stat fs src of
        Inl err \<Rightarrow> Some (Some err, fs)
      | Inr srcInfo \<Rightarrow>
          (case os_MkdirAll dst (perm srcInfo) fs of
             (Some err, fs1) \<Rightarrow> Some (Some err, fs1)
           | (None, fs1) \<Rightarrow>
               (case os_ReadDir fs1 src of
                  Inl err \<Rightarrow> Some (Some err, fs1)
                | Inr entries \<Rightarrow> copyDir_entries fuel src dst entries fs1)))"
| "copyDir_entries fuel src dst [] fs = Some (None, fs)"
| "copyDir_entries fuel src dst ((name, isDir) # entries) fs =
     (let srcPath = filepath_Join src name; dstPath = filepath_Join dst name in
      if isDir then
        (case copyDir fuel srcPath dstPath fs of
           None \<Rightarrow> None
         | Some (Some err, fs1) \<Rightarrow> Some (Some err, fs1)
         | Some (None, fs1) \<Rightarrow> copyDir_entries fuel src dst entries fs1)
      else
        (case copyFile srcPath dstPath fs of
           (Some err, fs1) \<Rightarrow> Some (Some err, fs1)
         | (None, fs1) \<Rightarrow> copyDir_entries fuel src dst entries fs1))"

definition copyPath :: "nat \<Rightarrow> string \<Rightarrow> string \<Rightarrow> filesys \<Rightarrow> (error option \<times> filesys) option" where
  "copyPath fuel src dst fs =
     (case os_Stat fs src of
        Inl err \<Rightarrow> Some (Some err, fs)
      | Inr srcInfo \<Rightarrow>
          if is_dir srcInfo then copyDir fuel src dst fs
          else Some (copyFile src dst fs))"


section \<open>\<^verbatim>\<open>filepath.Rel\<close>\<close>

text \<open>\<^verbatim>\<open>filepath.Rel\<close> compares the cleaned paths element by element; what is left of the
  base is climbed with \<^verbatim>\<open>..\<close>, what is left of the target is appended; a path that
  cleans to \<^verbatim>\<open>.\<close> has no elements. It fails when
  only one of the two is rooted, or when the base would have to climb through a
  \<^verbatim>\<open>..\<close> of its own.\<close>

definition rel_elems :: "string \<Rightarrow> string list" where
  "rel_elems s = (if s = [] then [] else if s = ''/'' then [[]] else splitOn (CHR ''/'') s)"

fun strip_common :: "string list \<Rightarrow> string list \<Rightarrow> string list \<times> string list" where
  "strip_common (b # bs) (t # ts) = (if b = t then strip_common bs ts else (b # bs, t # ts))"
| "strip_common bs ts = (bs, ts)"

definition filepath_Rel :: "string \<Rightarrow> string \<Rightarrow> error + string" where
  "filepath_Rel basepath targpath =
     (let base = filepath_Clean basepath; targ = filepath_Clean targpath in
      if targ = base then Inr ''.''
      else
        let base1 = (if base = ''.'' then [] else base);
            targ1 = (if targ = ''.'' then [] else targ) in
        if filepath_IsAbs base1 \<noteq> filepath_IsAbs targ1
        then Inl (Errorf (''Rel: can't make '' @ targpath @ '' relative to '' @ basepath))
        else
          (case strip_common (rel_elems base1) (rel_elems targ1) of
             (bs, ts) \<Rightarrow>
               if bs \<noteq> [] \<and> hd bs = ''..''
               then Inl (Errorf (''Rel: can't make '' @ targpath @ '' relative to '' @ basepath))
               else if bs \<noteq> [] then Inr (join_elems (replicate (length bs) ''..'' @ ts))
               else Inr (join_elems ts)))"

section \<open>RestoreEngine: \<^verbatim>\<open>restore\<close> (cmd/restore.go)\<close>

text \<open>\<^verbatim>\<open>err.Error()\<close>, which \<^verbatim>\<open>restoreAllFiles\<close> prints into the lines it collects.\<close>

fun errno_string :: "errno \<Rightarrow> string" where
  "errno_string ENOENT = ''no such file or directory''"
| "errno_string ENOTDIR = ''not a directory''"
| "errno_string EEXIST = ''file exists''"
| "errno_string EISDIR = ''is a directory''"
| "errno_string ELOOP = ''too many levels of symbolic links''"
| "errno_string ENOTEMPTY = ''directory not empty''"
| "errno_string EINVAL = ''invalid argument''"

fun Error :: "error \<Rightarrow> string" where
  "Error (PathError op name e) = op @ '' '' @ name @ '': '' @ errno_string e"
| "Error (LinkError op old new e) = op @ '' '' @ old @ '' '' @ new @ '': '' @ errno_string e"
| "Error (Errorf msg) = msg"
| "Error (Wrapf msg err) = msg @ '': '' @ Error err"

text \<open>The package-level variables that the flags of \<^verbatim>\<open>restore\<close> are bound to.\<close>

record flags =
  restoreLink :: bool
  restoreTo :: string
  restoreForce :: bool
  restoreAll :: bool

definition restoreFile ::
  "nat \<Rightarrow> flags \<Rightarrow> string \<Rightarrow> string \<Rightarrow> string \<Rightarrow> filesys \<Rightarrow> (error option \<times> filesys) option" where
  "restoreFile fuel fl targetPath sharedDir worktreeRoot fs =
     (let sourcePath = filepath_Join sharedDir targetPath in
      case os_Stat fs sourcePath of
        Inl err \<Rightarrow>
          if IsNotExist err
          then Some (Some (Errorf (''file not found in shared storage: '' @ targetPath
                         @ ''\<newline>Use 'wtm persist list' to see available files'')), fs)
          else Some (Some (Wrapf ''error accessing shared file'' err), fs)
      | Inr sourceInfo \<Rightarrow>
          let destPath =
                (if restoreTo fl \<noteq> []
                 then (if \<not> filepath_IsAbs (restoreTo fl) then filepath_Join worktreeRoot (restoreTo fl)
                       else restoreTo fl)
                 else filepath_Join worktreeRoot targetPath)
          in
          if (case os_Stat fs destPath of Inr _ \<Rightarrow> True | Inl _ \<Rightarrow> False) \<and> \<not> restoreForce fl
          then Some (Some (Errorf (''file already exists: '' @ destPath
                         @ ''\<newline>Use --force to overwrite'')), fs)
          else
            (case os_MkdirAll (filepath_Dir destPath) 493 fs of
               (Some err, fs1) \<Rightarrow> Some (Some (Wrapf ''error creating parent directories'' err), fs1)
             | (None, fs1) \<Rightarrow>
                 if restoreLink fl then
                   (let fs2 = (if restoreForce fl then os_RemoveAll destPath fs1 else fs1) in
                    case filepath_Rel (filepath_Dir destPath) sourcePath of
                      Inl err \<Rightarrow> Some (Some (Wrapf ''error calculating relative link path'' err), fs2)
                    | Inr relLink \<Rightarrow>
                        (case os_Symlink relLink destPath fs2 of
                           (Some err, fs3) \<Rightarrow> Some (Some (Wrapf ''error creating symlink'' err), fs3)
                         | (None, fs3) \<Rightarrow> Some (None, fs3)))
                 else
                   (let fs2 = (if restoreForce fl then os_RemoveAll destPath fs1 else fs1) in
                    if is_dir sourceInfo then
                      (case copyDir fuel sourcePath destPath fs2 of
                         None \<Rightarrow> None
                       | Some (Some err, fs3) \<Rightarrow> Some (Some (Wrapf ''error copying directory'' err), fs3)
                       | Some (None, fs3) \<Rightarrow> Some (None, fs3))
                    else
                      (case copyFile sourcePath destPath fs2 of
                         (Some err, fs3) \<Rightarrow> Some (Some (Wrapf ''error copying file'' err), fs3)
                       | (None, fs3) \<Rightarrow> Some (None, fs3)))))"

subsection \<open>\<^verbatim>\<open>filepath.Walk\<close>\<close>

text \<open>
  \<^verbatim>\<open>filepath.Walk\<close> with a callback that changes state \<open>'s\<close> (the file tree and the
  variables the closure captures). The callback answers \<^verbatim>\<open>nil\<close>, \<^verbatim>\<open>filepath.SkipDir\<close>
  or another error. A directory's names are read before the callback sees the directory;
  every name is then looked up (\<^verbatim>\<open>Lstat\<close>) when its turn comes. The fuel bounds the
  nesting, as for \<^verbatim>\<open>copyDir\<close>.
\<close>

datatype walk_ret = SkipDir | WalkErr error

fun walk ::
  "nat \<Rightarrow> ('s \<Rightarrow> filesys) \<Rightarrow>
   (string \<Rightarrow> node option \<Rightarrow> error option \<Rightarrow> 's \<Rightarrow> (walk_ret option \<times> 's) option) \<Rightarrow>
   string \<Rightarrow> node \<Rightarrow> 's \<Rightarrow> (walk_ret option \<times> 's) option"
  and walk_names ::
  "nat \<Rightarrow> ('s \<Rightarrow> filesys) \<Rightarrow>
   (string \<Rightarrow> node option \<Rightarrow> error option \<Rightarrow> 's \<Rightarrow> (walk_ret option \<times> 's) option) \<Rightarrow>
   string \<Rightarrow> string list \<Rightarrow> 's \<Rightarrow> (walk_ret option \<times> 's) option"
where
  "walk 0 getfs walkFn path info s = None"
| "walk (Suc fuel) getfs walkFn path info s =
     (if \<not> is_dir info then walkFn path (Some info) None s
      else
        (let names = os_ReadDir (getfs s) path in
         case walkFn path (Some info) (case names of Inl err \<Rightarrow> Some err | Inr _ \<Rightarrow> None) s of
           None \<Rightarrow> None
         | Some (err1, s1) \<Rightarrow>
             (case names of
                Inl err \<Rightarrow> Some (err1, s1)
              | Inr entries \<Rightarrow>
                  if err1 \<noteq> None then Some (err1, s1)
                  else walk_names fuel getfs walkFn path (map fst entries) s1)))"
| "walk_names fuel getfs walkFn path [] s = Some (None, s)"
| "walk_names fuel getfs walkFn path (name # names) s =
     (let filename = filepath_Join path name in
      case os_Lstat (getfs s) filename of
        Inl err \<Rightarrow>
          (case walkFn filename None (Some err) s of
             None \<Rightarrow> None
           | Some (Some (WalkErr e), s1) \<Rightarrow> Some (Some (WalkErr e), s1)
           | Some (_, s1) \<Rightarrow> walk_names fuel getfs walkFn path names s1)
      | Inr fileInfo \<Rightarrow>
          (case walk fuel getfs walkFn filename fileInfo s of
             None \<Rightarrow> None
           | Some (None, s1) \<Rightarrow> walk_names fuel getfs walkFn path names s1
           | Some (Some err, s1) \<Rightarrow>
               if \<not> is_dir fileInfo \<or> err \<noteq> SkipDir then Some (Some err, s1)
               else walk_names fuel getfs walkFn path names s1))"

definition Walk ::
  "nat \<Rightarrow> ('s \<Rightarrow> filesys) \<Rightarrow>
   (string \<Rightarrow> node option \<Rightarrow> error option \<Rightarrow> 's \<Rightarrow> (walk_ret option \<times> 's) option) \<Rightarrow>
   string \<Rightarrow> 's \<Rightarrow> (error option \<times> 's) option" where
  "Walk fuel getfs walkFn root s =
     (case (case os_Lstat (getfs s) root of
              Inl err \<Rightarrow> walkFn root None (Some err) s
            | Inr info \<Rightarrow> walk fuel getfs walkFn root info s) of
        None \<Rightarrow> None
      | Some (None, s1) \<Rightarrow> Some (None, s1)
      | Some (Some SkipDir, s1) \<Rightarrow> Some (None, s1)
      | Some (Some (WalkErr err), s1) \<Rightarrow> Some (Some err, s1))"

subsection \<open>\<^verbatim>\<open>restoreAllFiles\<close> and the command\<close>

text \<open>What the closure of \<^verbatim>\<open>restoreAllFiles\<close> captures: \<^verbatim>\<open>count\<close> and \<^verbatim>\<open>errors\<close>,
  next to the file tree. \<^verbatim>\<open>findRepoRoots\<close> asks the version-control service where the
  repository and the worktree are; its answer is a parameter of the commands.\<close>

record restore_state =
  rs_fs :: filesys
  count :: nat
  errors :: "string list"

definition cross_mark :: string where
  "cross_mark = [CHR 0xE2, CHR 0x9D, CHR 0x8C]"

definition restoreAll_visit ::
  "nat \<Rightarrow> flags \<Rightarrow> string \<Rightarrow> string \<Rightarrow>
   string \<Rightarrow> node option \<Rightarrow> error option \<Rightarrow> restore_state \<Rightarrow> (walk_ret option \<times> restore_state) option" where
  "restoreAll_visit fuel fl sharedDir worktreeRoot path info err st =
     (case err of
        Some e \<Rightarrow> Some (Some (WalkErr e), st)
      | None \<Rightarrow>
          if path = sharedDir then Some (None, st)
          else
            (case filepath_Rel sharedDir path of
               Inl e \<Rightarrow> Some (Some (WalkErr e), st)
             | Inr relPath \<Rightarrow>
                 if filepath_Dir relPath \<noteq> ''.'' then Some (None, st)
                 else
                   (case restoreFile fuel fl relPath sharedDir worktreeRoot (rs_fs st) of
                      None \<Rightarrow> None
                    | Some (r, fs1) \<Rightarrow>
                        (let st1 =
                               (case r of
                                  Some e \<Rightarrow>
                                    st\<lparr>rs_fs := fs1,
                                       errors := errors st
                                         @ [''  '' @ cross_mark @ '' '' @ relPath @ '': '' @ Error e]\<rparr>
                                | None \<Rightarrow> st\<lparr>rs_fs := fs1, count := count st + 1\<rparr>)
                         in case info of
                              None \<Rightarrow> Some (Some (WalkErr (Errorf ''invalid memory address or nil pointer dereference'')), st1)
                            | Some n \<Rightarrow>
                                if is_dir n then Some (Some SkipDir, st1) else Some (None, st1)))))"

definition restoreAllFiles ::
  "nat \<Rightarrow> flags \<Rightarrow> string \<Rightarrow> string \<Rightarrow> filesys \<Rightarrow> (error option \<times> restore_state) option" where
  "restoreAllFiles fuel fl sharedDir worktreeRoot fs =
     (case Walk fuel rs_fs (restoreAll_visit fuel fl sharedDir worktreeRoot) sharedDir
             \<lparr>rs_fs = fs, count = 0, errors = []\<rparr> of
        None \<Rightarrow> None
      | Some (Some err, st) \<Rightarrow> Some (Some (Wrapf ''error walking shared directory'' err), st)
      | Some (None, st) \<Rightarrow>
          if length (errors st) > 0
          then Some (Some (Errorf ''some files failed to restore''), st)
          else Some (None, st))"

definition restoreCmd ::
  "nat \<Rightarrow> flags \<Rightarrow> (error + string \<times> string) \<Rightarrow> string list \<Rightarrow> filesys
     \<Rightarrow> (error option \<times> filesys) option" where
  "restoreCmd fuel fl findRepoRoots args fs =
     (if length args > 1
      then Some (Some (Errorf (''accepts at most 1 arg(s), received '' @ Itoa (length args))), fs)
      else if restoreAll fl \<and> length args > 0
      then Some (Some (Errorf ''cannot specify file with --all flag''), fs)
      else if \<not> restoreAll fl \<and> length args = 0
      then Some (Some (Errorf ''must specify a file/directory or use --all flag''), fs)
      else
        (case findRepoRoots of
           Inl err \<Rightarrow> Some (Some err, fs)
         | Inr (bareRepoRoot, worktreeRoot) \<Rightarrow>
             (let sharedDir = filepath_Join bareRepoRoot ''shared'' in
              if (case os_Stat fs sharedDir of Inl err \<Rightarrow> IsNotExist err | Inr _ \<Rightarrow> False)
              then Some (Some (Errorf
                     ''no persisted files found. Use 'wtm persist add <file>' to persist files first''), fs)
              else if restoreAll fl
              then (case restoreAllFiles fuel fl sharedDir worktreeRoot fs of
                      None \<Rightarrow> None
                    | Some (r, st) \<Rightarrow> Some (r, rs_fs st))
              else restoreFile fuel fl (args ! 0) sharedDir worktreeRoot fs)))"

definition persistAdd ::
  "nat \<Rightarrow> (error + string \<times> string) \<Rightarrow> string \<Rightarrow> filesys \<Rightarrow> (error option \<times> filesys) option" where
  "persistAdd fuel findRepoRoots targetPath fs =
     (case findRepoRoots of
        Inl err \<Rightarrow> Some (Some err, fs)
      | Inr (bareRepoRoot, worktreeRoot) \<Rightarrow>
          (let absTargetPath =
                 (if \<not> filepath_IsAbs targetPath then filepath_Join worktreeRoot targetPath
                  else targetPath)
           in
           if (case os_Stat fs absTargetPath of Inl err \<Rightarrow> IsNotExist err | Inr _ \<Rightarrow> False)
           then Some (Some (Errorf (''file or directory does not exist: '' @ targetPath)), fs)
           else
             (case filepath_Rel worktreeRoot absTargetPath of
                Inl err \<Rightarrow> Some (Some (Wrapf ''error determining relative path'' err), fs)
              | Inr relPath \<Rightarrow>
                  (let sharedDir = filepath_Join bareRepoRoot ''shared'';
                       destPath = filepath_Join sharedDir relPath
                   in
                   if (case os_Stat fs destPath of Inr _ \<Rightarrow> True | Inl _ \<Rightarrow> False)
                   then Some (Some (Errorf (''file already exists in shared storage: '' @ relPath
                                  @ ''\<newline>Use 'wtm persist remove '' @ relPath
                                  @ ''' first if you want to update it'')), fs)
                   else
                     (case os_MkdirAll (filepath_Dir destPath) 493 fs of
                        (Some err, fs1) \<Rightarrow>
                          Some (Some (Wrapf ''error creating shared directory structure'' err), fs1)
                      | (None, fs1) \<Rightarrow>
                          (case copyPath fuel absTargetPath destPath fs1 of
                             None \<Rightarrow> None
                           | Some (Some err, fs2) \<Rightarrow>
                               Some (Some (Wrapf ''error copying to shared storage'' err), fs2)
                           | Some (None, fs2) \<Rightarrow> Some (None, fs2)))))))"

section \<open>\<^verbatim>\<open>os.Rename\<close> and \<^verbatim>\<open>os.Chdir\<close>\<close>

text \<open>\<^verbatim>\<open>os.Rename\<close> moves the node the old name denotes, a link itself and not what it
  points to, with all that stands below it, to the place the new name denotes.\<close>

definition rename_nodes :: "path \<Rightarrow> path \<Rightarrow> (path \<times> node) list \<Rightarrow> (path \<times> node) list" where
  "rename_nodes src dst ns =
     map (\<lambda>(q, n). (dst @ drop (length src) q, n)) (filter (\<lambda>(q, _). prefix src q) ns)
     @ filter (\<lambda>(q, _). \<not> prefix src q \<and> \<not> prefix dst q) ns"

definition os_Rename :: "string \<Rightarrow> string \<Rightarrow> filesys \<Rightarrow> error option \<times> filesys" where
  "os_Rename oldpath newpath fs =
     (case resolve_name fs oldpath False of
        Inl e \<Rightarrow> (Some (LinkError ''rename'' oldpath newpath e), fs)
      | Inr src \<Rightarrow>
     (case resolve_name fs newpath False of
        Inl e \<Rightarrow> (Some (LinkError ''rename'' oldpath newpath e), fs)
      | Inr dst \<Rightarrow>
     (case lookup (nodes fs) src of
        Inl e \<Rightarrow> (Some (LinkError ''rename'' oldpath newpath e), fs)
      | Inr sn \<Rightarrow>
          if src = dst then (None, fs)
          else if prefix src dst then (Some (LinkError ''rename'' oldpath newpath EINVAL), fs)
          else if prefix dst src then (Some (LinkError ''rename'' oldpath newpath ENOTEMPTY), fs)
          else
            (case lookup (nodes fs) (butlast dst) of
               Inl e \<Rightarrow> (Some (LinkError ''rename'' oldpath newpath e), fs)
             | Inr (Dir _) \<Rightarrow>
                 (case lookup (nodes fs) dst of
                    Inl _ \<Rightarrow> (None, fs\<lparr>nodes := rename_nodes src dst (nodes fs)\<rparr>)
                  | Inr dn \<Rightarrow>
                      if is_dir sn then
                        (if \<not> is_dir dn then (Some (LinkError ''rename'' oldpath newpath ENOTDIR), fs)
                         else if children (nodes fs) dst \<noteq> []
                         then (Some (LinkError ''rename'' oldpath newpath ENOTEMPTY), fs)
                         else (None, fs\<lparr>nodes := rename_nodes src dst (nodes fs)\<rparr>))
                      else
                        (if is_dir dn then (Some (LinkError ''rename'' oldpath newpath EISDIR), fs)
                         else (None, fs\<lparr>nodes := rename_nodes src dst (nodes fs)\<rparr>)))
             | Inr _ \<Rightarrow> (Some (LinkError ''rename'' oldpath newpath ENOTDIR), fs)))))"

definition os_Chdir :: "string \<Rightarrow> filesys \<Rightarrow> error option \<times> filesys" where
  "os_Chdir dir fs =
     (case resolve_name fs dir True of
        Inl e \<Rightarrow> (Some (PathError ''chdir'' dir e), fs)
      | Inr q \<Rightarrow>
          (case lookup (nodes fs) q of
             Inl e \<Rightarrow> (Some (PathError ''chdir'' dir e), fs)
           | Inr (Dir _) \<Rightarrow> (None, fs\<lparr>cwd := q\<rparr>)
           | Inr _ \<Rightarrow> (Some (PathError ''chdir'' dir ENOTDIR), fs)))"

section \<open>The version-control service\<close>

text \<open>
  The commands run \<^verbatim>\<open>git\<close> as a child process. Whether a run succeeds is not for the
  tool to decide: \<open>git\<close> holds, for every command the tool issues, the error it ends
  with in a given file tree (\<open>None\<close> for exit status 0). What is assumed of the service
  is its contract: \<^verbatim>\<open>worktree move\<close> that succeeds has renamed the directory, and one that
  fails has left the files alone; \<^verbatim>\<open>worktree add\<close> that succeeds has made the directory,
  which was not there before; \<^verbatim>\<open>worktree repair\<close> touches no file of the worktrees.
  Every external command the tool issues is recorded in \<open>calls\<close>, with the plain
  \<^verbatim>\<open>os.Rename\<close> of the fallback.
\<close>

record git =
  worktree_move :: "string \<Rightarrow> string \<Rightarrow> filesys \<Rightarrow> error option"
  worktree_add :: "string \<Rightarrow> string \<Rightarrow> filesys \<Rightarrow> error option"
  worktree_repair :: "filesys \<Rightarrow> error option"
  branch_show_current :: "string \<Rightarrow> filesys \<Rightarrow> error + string"

datatype call =
    GitWorktreeMove string string
  | GitWorktreeAdd string string
  | GitWorktreeRepair
  | OsRename string string

record world =
  fsys :: filesys
  calls :: "call list"

definition git_worktree_move :: "git \<Rightarrow> string \<Rightarrow> string \<Rightarrow> world \<Rightarrow> error option \<times> world" where
  "git_worktree_move g source destination w =
     (let w1 = w\<lparr>calls := calls w @ [GitWorktreeMove source destination]\<rparr> in
      case worktree_move g source destination (fsys w) of
        Some err \<Rightarrow> (Some err, w1)
      | None \<Rightarrow>
          (case os_Rename source destination (fsys w) of
             (Some err, fs1) \<Rightarrow> (Some err, w1)
           | (None, fs1) \<Rightarrow> (None, w1\<lparr>fsys := fs1\<rparr>)))"

definition git_worktree_add :: "git \<Rightarrow> string \<Rightarrow> string \<Rightarrow> world \<Rightarrow> error option \<times> world" where
  "git_worktree_add g path commitish w =
     (let w1 = w\<lparr>calls := calls w @ [GitWorktreeAdd path commitish]\<rparr> in
      case worktree_add g path commitish (fsys w) of
        Some err \<Rightarrow> (Some err, w1)
      | None \<Rightarrow>
          (case os_Lstat (fsys w) path of
             Inr _ \<Rightarrow> (Some (Errorf (''fatal: '' @ [CHR 0x27] @ path @ [CHR 0x27] @ '' already exists'')), w1)
           | Inl _ \<Rightarrow>
               (case os_MkdirAll path 493 (fsys w) of
                  (Some err, fs1) \<Rightarrow> (Some err, w1)
                | (None, fs1) \<Rightarrow> (None, w1\<lparr>fsys := fs1\<rparr>))))"

definition git_worktree_repair :: "git \<Rightarrow> world \<Rightarrow> error option \<times> world" where
  "git_worktree_repair g w =
     (worktree_repair g (fsys w), w\<lparr>calls := calls w @ [GitWorktreeRepair]\<rparr>)"

definition rename_dir :: "string \<Rightarrow> string \<Rightarrow> world \<Rightarrow> error option \<times> world" where
  "rename_dir source destination w =
     (case os_Rename source destination (fsys w) of
        (r, fs1) \<Rightarrow> (r, w\<lparr>fsys := fs1, calls := calls w @ [OsRename source destination]\<rparr>))"

section \<open>WorktreeRelocator: \<^verbatim>\<open>switch\<close> (cmd/switch.go)\<close>

text \<open>\<^verbatim>\<open>detectLocation\<close> asks the service where the command runs; its answer is a
  parameter of the command. \<^verbatim>\<open>switchCmd\<close> is cut in two at the comment
  \<^verbatim>\<open>// Now handle the target branch/commit\<close>: what comes before is the vacating phase,
  what comes after the occupying phase.\<close>

definition getCurrentBranch :: "git \<Rightarrow> string \<Rightarrow> world \<Rightarrow> error + string" where
  "getCurrentBranch g worktreePath w = branch_show_current g worktreePath (fsys w)"

definition moveWorktree :: "git \<Rightarrow> string \<Rightarrow> string \<Rightarrow> string \<Rightarrow> world \<Rightarrow> error option \<times> world" where
  "moveWorktree g source destination bareRepoRoot w =
     (case git_worktree_move g source destination w of
        (None, w1) \<Rightarrow> (None, w1)
      | (Some err0, w1) \<Rightarrow>
          (case rename_dir source destination w1 of
             (Some err, w2) \<Rightarrow> (Some (Wrapf ''failed to move directory'' err), w2)
           | (None, w2) \<Rightarrow>
               (case git_worktree_repair g w2 of
                  (Some err, w3) \<Rightarrow>
                    (Some (Wrapf ''moved directory but failed to repair git metadata'' err), w3)
                | (None, w3) \<Rightarrow> (None, w3))))"

definition createWorktree :: "git \<Rightarrow> string \<Rightarrow> string \<Rightarrow> string \<Rightarrow> world \<Rightarrow> error option \<times> world" where
  "createWorktree g path commitish bareRepoRoot w = git_worktree_add g path commitish w"

definition with_fs :: "world \<Rightarrow> error option \<times> filesys \<Rightarrow> error option \<times> world" where
  "with_fs w r = (fst r, w\<lparr>fsys := snd r\<rparr>)"

definition switch_vacating :: "git \<Rightarrow> string \<Rightarrow> world \<Rightarrow> error option \<times> world" where
  "switch_vacating g bareRepoRoot w =
     (let workspacePath = filepath_Join bareRepoRoot ''workspace'';
          treeDir = filepath_Join bareRepoRoot ''tree''
      in
      case (case os_Stat (fsys w) workspacePath of
              Inr _ \<Rightarrow>
                (case getCurrentBranch g workspacePath w of
                   Inl err \<Rightarrow> Inl (Wrapf ''error getting current branch from workspace'' err)
                 | Inr b \<Rightarrow> Inr (b, True))
            | Inl _ \<Rightarrow> Inr ([], False)) of
        Inl err \<Rightarrow> (Some err, w)
      | Inr (currentBranch, workspaceExists) \<Rightarrow>
          (case with_fs w (os_MkdirAll treeDir 493 (fsys w)) of
             (Some err, w1) \<Rightarrow> (Some (Wrapf ''error creating tree directory'' err), w1)
           | (None, w1) \<Rightarrow>
               if workspaceExists then
                 (if currentBranch = [] then
                    (Some (Errorf ''workspace exists but is in detached HEAD state''), w1)
                  else
                    (let sanitizedCurrent = sanitizeBranchName currentBranch;
                         currentTargetPath = filepath_Join treeDir sanitizedCurrent
                     in
                     case os_Stat (fsys w1) currentTargetPath of
                       Inr _ \<Rightarrow>
                         (Some (Errorf (''tree/'' @ sanitizedCurrent
                                   @ '' already exists, this shouldn't happen'')), w1)
                     | Inl _ \<Rightarrow>
                         (case moveWorktree g workspacePath currentTargetPath bareRepoRoot w1 of
                            (Some err, w2) \<Rightarrow> (Some (Wrapf ''error moving workspace to tree'' err), w2)
                          | (None, w2) \<Rightarrow> (None, w2))))
               else (None, w1)))"

definition switch_occupying :: "git \<Rightarrow> string \<Rightarrow> string \<Rightarrow> world \<Rightarrow> error option \<times> world" where
  "switch_occupying g bareRepoRoot targetCommitish w =
     (let workspacePath = filepath_Join bareRepoRoot ''workspace'';
          treeDir = filepath_Join bareRepoRoot ''tree'';
          sanitizedTarget = sanitizeBranchName targetCommitish;
          targetTreePath = filepath_Join treeDir sanitizedTarget
      in
      case os_Stat (fsys w) targetTreePath of
        Inr _ \<Rightarrow>
          (case moveWorktree g targetTreePath workspacePath bareRepoRoot w of
             (Some err, w1) \<Rightarrow>
               (Some (Wrapf (''error moving tree/'' @ sanitizedTarget @ '' to workspace'') err), w1)
           | (None, w1) \<Rightarrow> (None, w1))
      | Inl _ \<Rightarrow>
          (case createWorktree g workspacePath targetCommitish bareRepoRoot w of
             (Some err, w1) \<Rightarrow> (Some (Wrapf ''error creating worktree'' err), w1)
           | (None, w1) \<Rightarrow> (None, w1)))"

definition switchCmd ::
  "git \<Rightarrow> (error + string \<times> string) \<Rightarrow> string list \<Rightarrow> world \<Rightarrow> error option \<times> world" where
  "switchCmd g detectLocation args w =
     (if length args \<noteq> 1
      then (Some (Errorf (''accepts 1 arg(s), received '' @ Itoa (length args))), w)
      else
        (let targetCommitish = args ! 0 in
         case detectLocation of
           Inl err \<Rightarrow> (Some err, w)
         | Inr (bareRepoRoot, currentLocation) \<Rightarrow>
             (case with_fs w (os_Chdir bareRepoRoot (fsys w)) of
                (Some err, w1) \<Rightarrow> (Some (Wrapf ''error changing to bare repo directory'' err), w1)
              | (None, w1) \<Rightarrow>
                  (case switch_vacating g bareRepoRoot w1 of
                     (Some err, w2) \<Rightarrow> (Some err, w2)
                   | (None, w2) \<Rightarrow> switch_occupying g bareRepoRoot targetCommitish w2))))"


section \<open>Sample trees\<close>

text \<open>A repository at \<^verbatim>\<open>/repo\<close> whose store holds the file \<^verbatim>\<open>.env\<close> and the directory
  \<^verbatim>\<open>d\<close>, with an empty worktree at \<^verbatim>\<open>/repo/workspace\<close>: 493 is \<^verbatim>\<open>0755\<close>, 384 is
  \<^verbatim>\<open>0600\<close>, 488 is \<^verbatim>\<open>0750\<close>, 420 is \<^verbatim>\<open>0644\<close>, and the umask 18 is \<^verbatim>\<open>022\<close>.\<close>

definition fs0 :: filesys where
  "fs0 = \<lparr>nodes = [([''repo''], Dir 493), ([''repo'', ''shared''], Dir 493),
                    ([''repo'', ''shared'', ''.env''], File ''SECRET'' 384),
                    ([''repo'', ''shared'', ''d''], Dir 488),
                    ([''repo'', ''shared'', ''d'', ''x''], File ''xx'' 420),
                    ([''repo'', ''workspace''], Dir 493)],
           umask = 18, cwd = [''repo'', ''workspace'']\<rparr>"

section \<open>Properties of the sanitizer\<close>

lemma mod_off:
  fixes a k m :: nat
  assumes "a < m" "m dvd k"
  shows "(k + a) mod m = a"
  using assms by (auto elim!: dvdE)

lemma enc2_arith:
  fixes s0 s1 :: nat
  assumes "194 \<le> s0" "s0 < 224" "128 \<le> s1" "s1 \<le> 191"
  defines "r \<equiv> (s0 mod 32) * 64 + s1 mod 64"
  shows "128 \<le> r \<and> r \<le> 2047 \<and> 192 + r div 64 = s0 \<and> 128 + r mod 64 = s1"
proof -
  define a where "a = s0 - 192"
  define b where "b = s1 - 128"
  have a: "s0 = 192 + a" "a < 32" "2 \<le> a" using assms(1,2) by (simp_all add: a_def)
  have b: "s1 = 128 + b" "b < 64" using assms(3,4) by (simp_all add: b_def)
  show ?thesis unfolding r_def a b using a(2,3) b(2) by (simp add: mod_off)
qed

lemma enc3_arith:
  fixes s0 s1 s2 :: nat
  assumes "224 \<le> s0" "s0 < 240" "128 \<le> s1" "s1 \<le> 191" "128 \<le> s2" "s2 \<le> 191"
    and "s0 = 224 \<Longrightarrow> 160 \<le> s1" and "s0 = 237 \<Longrightarrow> s1 \<le> 159"
  defines "r \<equiv> (s0 mod 16) * 4096 + (s1 mod 64) * 64 + s2 mod 64"
  shows "2048 \<le> r \<and> r \<le> 65535 \<and> \<not> (55296 \<le> r \<and> r \<le> 57343)
         \<and> 224 + r div 4096 = s0 \<and> 128 + (r div 64) mod 64 = s1 \<and> 128 + r mod 64 = s2"
proof -
  define a where "a = s0 - 224"
  define b where "b = s1 - 128"
  define c where "c = s2 - 128"
  have a: "s0 = 224 + a" "a < 16" using assms(1,2) by (simp_all add: a_def)
  have b: "s1 = 128 + b" "b < 64" using assms(3,4) by (simp_all add: b_def)
  have c: "s2 = 128 + c" "c < 64" using assms(5,6) by (simp_all add: c_def)
  have lo: "a = 0 \<Longrightarrow> 32 \<le> b" using assms(7) a b by simp
  have hi: "a = 13 \<Longrightarrow> b < 32" using assms(8) a b by simp
  have r: "r = a * 4096 + b * 64 + c" unfolding r_def a b c using a(2) b(2) c(2) by (simp add: mod_off)
  have "r div 4096 = a" unfolding r using b(2) c(2) by simp
  moreover have "(r div 64) mod 64 = b"
  proof -
    have "r div 64 = a * 64 + b" unfolding r using c(2) by simp
    then show ?thesis using b(2) by simp
  qed
  moreover have "r mod 64 = c"
  proof -
    have "(64::nat) dvd a * 4096 + b * 64" by (intro dvd_add dvd_mult) simp_all
    then show ?thesis unfolding r using c(2) by (rule mod_off [rotated])
  qed
  moreover have "2048 \<le> r" unfolding r using lo by (cases "a = 0") simp_all
  moreover have "r \<le> 65535" unfolding r using a(2) b(2) c(2) by simp
  moreover have "\<not> (55296 \<le> r \<and> r \<le> 57343)" unfolding r using hi b(2) c(2) by (cases "a = 13"; cases "a < 13") simp_all
  ultimately show ?thesis using a b c by simp
qed

lemma enc4_arith:
  fixes s0 s1 s2 s3 :: nat
  assumes "240 \<le> s0" "s0 < 245" "128 \<le> s1" "s1 \<le> 191" "128 \<le> s2" "s2 \<le> 191"
    "128 \<le> s3" "s3 \<le> 191"
    and "s0 = 240 \<Longrightarrow> 144 \<le> s1" and "s0 = 244 \<Longrightarrow> s1 \<le> 143"
  defines "r \<equiv> (s0 mod 8) * 262144 + (s1 mod 64) * 4096 + (s2 mod 64) * 64 + s3 mod 64"
  shows "65536 \<le> r \<and> r \<le> 1114111
         \<and> 240 + r div 262144 = s0 \<and> 128 + (r div 4096) mod 64 = s1
         \<and> 128 + (r div 64) mod 64 = s2 \<and> 128 + r mod 64 = s3"
proof -
  define a where "a = s0 - 240"
  define b where "b = s1 - 128"
  define c where "c = s2 - 128"
  define d where "d = s3 - 128"
  have a: "s0 = 240 + a" "a < 5" using assms(1,2) by (simp_all add: a_def)
  have b: "s1 = 128 + b" "b < 64" using assms(3,4) by (simp_all add: b_def)
  have c: "s2 = 128 + c" "c < 64" using assms(5,6) by (simp_all add: c_def)
  have d: "s3 = 128 + d" "d < 64" using assms(7,8) by (simp_all add: d_def)
  have lo: "a = 0 \<Longrightarrow> 16 \<le> b" using assms(9) a b by simp
  have hi: "a = 4 \<Longrightarrow> b < 16" using assms(10) a b by simp
  have r: "r = a * 262144 + b * 4096 + c * 64 + d"
    unfolding r_def a b c d using a(2) b(2) c(2) d(2) by (simp add: mod_off)
  have "r div 262144 = a" unfolding r using b(2) c(2) d(2) by simp
  moreover have "(r div 4096) mod 64 = b"
  proof -
    have "r div 4096 = a * 64 + b" unfolding r using c(2) d(2) by simp
    then show ?thesis using b(2) by simp
  qed
  moreover have "(r div 64) mod 64 = c"
  proof -
    have "r div 64 = a * 4096 + b * 64 + c" unfolding r using d(2) by simp
    moreover have "(64::nat) dvd a * 4096 + b * 64" by (intro dvd_add dvd_mult) simp_all
    ultimately show ?thesis using c(2) by (simp add: mod_off)
  qed
  moreover have "r mod 64 = d"
  proof -
    have "(64::nat) dvd a * 262144 + b * 4096 + c * 64" by (intro dvd_add dvd_mult) simp_all
    then show ?thesis unfolding r using d(2) by (rule mod_off [rotated])
  qed
  moreover have "65536 \<le> r" unfolding r using lo by (cases "a = 0") simp_all
  moreover have "r \<le> 1114111" unfolding r using a(2) b(2) c(2) d(2) hi by (cases "a = 4") simp_all
  ultimately show ?thesis using a b c d by simp
qed


lemma byte_slash: "byte c = 47 \<longleftrightarrow> c = CHR ''/''"
proof -
  have "byte (CHR ''/'') = 47" by simp
  then show ?thesis by (metis of_char_eq_iff)
qed

lemma char_of_byte_eq: "n = byte c \<Longrightarrow> char_of n = c"
  by simp

lemma Decode_valid:
  assumes d: "DecodeRuneInString s = (r, n)" and ne: "s \<noteq> []"
    and ok: "\<not> (r = RuneError \<and> n = 1)"
  shows "EncodeRune r = take n s \<and> 1 \<le> n \<and> n \<le> length s
         \<and> (r = 47 \<longrightarrow> take n s = ''/'') \<and> (r \<noteq> 47 \<longrightarrow> CHR ''/'' \<notin> set (take n s))
         \<and> (\<forall>t. DecodeRuneInString (take n s @ t) = (r, n))"
proof -
  obtain c0 cs where s: "s = c0 # cs" using ne by (cases s) auto
  let ?s0 = "byte c0"
  have lt: "?s0 < 256" by simp
  consider (ascii) "?s0 < 128"
    | (bad) "128 \<le> ?s0" "lead_size ?s0 = 0"
    | (two) "194 \<le> ?s0" "?s0 < 224"
    | (three) "224 \<le> ?s0" "?s0 < 240"
    | (four) "240 \<le> ?s0" "?s0 < 245"
    unfolding lead_size_def by fastforce
  then show ?thesis
  proof cases
    case ascii
    then have rn: "r = ?s0" "n = 1" using d s by (auto simp: Let_def)
    have "EncodeRune r = [c0]" using ascii rn by (simp add: EncodeRune_def)
    moreover have "r = 47 \<longleftrightarrow> c0 = CHR ''/''" using rn byte_slash by simp
    moreover have "\<And>t. DecodeRuneInString ([c0] @ t) = (r, n)" using ascii rn by (simp add: Let_def)
    ultimately show ?thesis using rn s by simp
  next
    case bad
    then have "r = RuneError \<and> n = 1" using d s by (auto simp: Let_def)
    then show ?thesis using ok by simp
  next
    case two
    have sz: "lead_size ?s0 = 2" using two by (simp add: lead_size_def)
    have acc: "accept_lo ?s0 = 128" "accept_hi ?s0 = 191"
      using two by (simp_all add: accept_lo_def accept_hi_def locb_def hicb_def)
    obtain c1 cs1 where cs: "cs = c1 # cs1"
      using d s ok two sz by (cases cs) (auto simp: Let_def)
    have r1: "128 \<le> byte c1" "byte c1 \<le> 191"
      using d s ok two sz acc cs by (auto simp: Let_def split: if_splits)
    have rn: "r = (?s0 mod 32) * 64 + byte c1 mod 64" "n = 2"
      using d s two sz acc cs r1 by (auto simp: Let_def split: if_splits)
    note A = enc2_arith [OF two r1, folded rn(1)]
    have "EncodeRune r = [c0, c1]" using A by (simp add: EncodeRune_def)
    moreover have "r \<noteq> 47" using A by simp
    moreover have "c0 \<noteq> CHR ''/''" "c1 \<noteq> CHR ''/''" using two r1 byte_slash by fastforce+
    moreover have "\<And>t. DecodeRuneInString ([c0, c1] @ t) = (r, n)"
      using two sz acc r1 rn by (simp add: Let_def)
    ultimately show ?thesis using rn s cs by simp
  next
    case three
    have sz: "lead_size ?s0 = 3" using three by (simp add: lead_size_def)
    obtain c1 c2 cs2 where cs: "cs = c1 # c2 # cs2"
      using d s ok three sz by (cases cs; cases "tl cs") (auto simp: Let_def)
    have r1: "accept_lo ?s0 \<le> byte c1" "byte c1 \<le> accept_hi ?s0"
      and r2: "128 \<le> byte c2" "byte c2 \<le> 191"
      using d s ok three sz cs by (auto simp: Let_def locb_def hicb_def split: if_splits)
    have r1': "128 \<le> byte c1" "byte c1 \<le> 191" "?s0 = 224 \<Longrightarrow> 160 \<le> byte c1"
      "?s0 = 237 \<Longrightarrow> byte c1 \<le> 159"
      using r1 three by (auto simp: accept_lo_def accept_hi_def locb_def hicb_def split: if_splits)
    have rn: "r = (?s0 mod 16) * 4096 + (byte c1 mod 64) * 64 + byte c2 mod 64" "n = 3"
      using d s three sz cs r1 r2 by (auto simp: Let_def locb_def hicb_def split: if_splits)
    note A = enc3_arith [OF three r1'(1,2) r2 r1'(3,4), folded rn(1)]
    have "EncodeRune r = [c0, c1, c2]" using A by (auto simp add: EncodeRune_def encode3_def)
    moreover have "r \<noteq> 47" using A by simp
    moreover have "c0 \<noteq> CHR ''/''" "c1 \<noteq> CHR ''/''" "c2 \<noteq> CHR ''/''"
      using three r1' r2 byte_slash by fastforce+
    moreover have "\<And>t. DecodeRuneInString ([c0, c1, c2] @ t) = (r, n)"
      using three sz r1 r2 rn by (simp add: Let_def locb_def hicb_def)
    ultimately show ?thesis using rn s cs by simp
  next
    case four
    have sz: "lead_size ?s0 = 4" using four by (simp add: lead_size_def)
    obtain c1 c2 c3 cs3 where cs: "cs = c1 # c2 # c3 # cs3"
      using d s ok four sz by (cases cs; cases "tl cs"; cases "tl (tl cs)") (auto simp: Let_def)
    have r1: "accept_lo ?s0 \<le> byte c1" "byte c1 \<le> accept_hi ?s0"
      and r2: "128 \<le> byte c2" "byte c2 \<le> 191"
      and r3: "128 \<le> byte c3" "byte c3 \<le> 191"
      using d s ok four sz cs by (auto simp: Let_def locb_def hicb_def split: if_splits)
    have r1': "128 \<le> byte c1" "byte c1 \<le> 191" "?s0 = 240 \<Longrightarrow> 144 \<le> byte c1"
      "?s0 = 244 \<Longrightarrow> byte c1 \<le> 143"
      using r1 four by (auto simp: accept_lo_def accept_hi_def locb_def hicb_def split: if_splits)
    have rn: "r = (?s0 mod 8) * 262144 + (byte c1 mod 64) * 4096 + (byte c2 mod 64) * 64
                  + byte c3 mod 64" "n = 4"
      using d s four sz cs r1 r2 r3 by (auto simp: Let_def locb_def hicb_def split: if_splits)
    note A = enc4_arith [OF four r1'(1,2) r2 r3 r1'(3,4), folded rn(1)]
    have "EncodeRune r = [c0, c1, c2, c3]" using A by (simp add: EncodeRune_def)
    moreover have "r \<noteq> 47" using A by simp
    moreover have "c0 \<noteq> CHR ''/''" "c1 \<noteq> CHR ''/''" "c2 \<noteq> CHR ''/''" "c3 \<noteq> CHR ''/''"
      using four r1' r2 r3 byte_slash by fastforce+
    moreover have "\<And>t. DecodeRuneInString ([c0, c1, c2, c3] @ t) = (r, n)"
      using four sz r1 r2 r3 rn by (simp add: Let_def locb_def hicb_def)
    ultimately show ?thesis using rn s cs by simp
  qed
qed

declare sanitize_loop.simps [simp del] ValidString.simps [simp del]

lemma sanitize_loop_Nil: "sanitize_loop [] result = result"
  by (simp add: sanitize_loop.simps)

lemma ValidString_Nil: "ValidString []"
  by (simp add: ValidString.simps)

lemma sanitize_loop_step:
  "name \<noteq> [] \<Longrightarrow> DecodeRuneInString name = (r, n) \<Longrightarrow>
     sanitize_loop name result = sanitize_loop (drop n name) (result @ piece r)"
  by (subst sanitize_loop.simps) (simp add: piece_def)

lemma ValidString_step:
  "s \<noteq> [] \<Longrightarrow> DecodeRuneInString s = (r, n) \<Longrightarrow>
     ValidString s = (\<not> (r = RuneError \<and> n = 1) \<and> ValidString (drop n s))"
  by (subst ValidString.simps) simp

lemma piece_valid:
  assumes "DecodeRuneInString s = (r, n)" "s \<noteq> []" "\<not> (r = RuneError \<and> n = 1)"
  shows "piece r = map slash_to_dash (take n s)"
proof -
  note V = Decode_valid [OF assms]
  show ?thesis
  proof (cases "r = 47")
    case True
    then show ?thesis using V by (simp add: piece_def slash_to_dash_def)
  next
    case False
    then have "map slash_to_dash (take n s) = take n s"
      using V by (intro map_idI) (auto simp: slash_to_dash_def)
    then show ?thesis using V False by (simp add: piece_def)
  qed
qed

lemma sanitize_loop_valid:
  "ValidString s \<Longrightarrow> sanitize_loop s acc = acc @ map slash_to_dash s"
proof (induction s arbitrary: acc rule: length_induct)
  case (1 s)
  show ?case
  proof (cases "s = []")
    case True
    then show ?thesis by (simp add: sanitize_loop_Nil)
  next
    case False
    obtain r n where d: "DecodeRuneInString s = (r, n)" by (cases "DecodeRuneInString s")
    have v: "\<not> (r = RuneError \<and> n = 1)" "ValidString (drop n s)"
      using "1.prems" ValidString_step [OF False d] by simp_all
    have n: "1 \<le> n" using DecodeRuneInString_width [OF False] d by simp
    then have "length (drop n s) < length s" using False by simp
    then have "sanitize_loop (drop n s) (acc @ piece r)
                 = (acc @ piece r) @ map slash_to_dash (drop n s)"
      using "1.IH" v(2) by blast
    also have "\<dots> = acc @ map slash_to_dash (take n s @ drop n s)"
      using piece_valid [OF d False v(1)] by (simp del: append_take_drop_id)
    finally show ?thesis using sanitize_loop_step [OF False d, of acc] by simp
  qed
qed

lemma sanitize_loop_acc: "sanitize_loop s acc = acc @ sanitize_loop s []"
proof (induction s arbitrary: acc rule: length_induct)
  case (1 s)
  show ?case
  proof (cases "s = []")
    case True
    then show ?thesis by (simp add: sanitize_loop_Nil)
  next
    case False
    obtain r n where d: "DecodeRuneInString s = (r, n)" by (cases "DecodeRuneInString s")
    have n: "1 \<le> n" using DecodeRuneInString_width [OF False] d by simp
    then have l: "length (drop n s) < length s" using False by simp
    have "sanitize_loop s acc = sanitize_loop (drop n s) (acc @ piece r)"
      by (rule sanitize_loop_step [OF False d])
    also have "\<dots> = (acc @ piece r) @ sanitize_loop (drop n s) []"
      using "1.IH" l by blast
    also have "\<dots> = acc @ sanitize_loop (drop n s) ([] @ piece r)"
      using "1.IH" [rule_format, OF l, of "[] @ piece r"] by simp
    also have "\<dots> = acc @ sanitize_loop s []"
      using sanitize_loop_step [OF False d, of "[]"] by simp
    finally show ?thesis .
  qed
qed

lemma encode_RuneError: "EncodeRune RuneError = [CHR 0xEF, CHR 0xBF, CHR 0xBD]"
  by (simp add: EncodeRune_def encode3_def RuneError_def char_of_eq_iff)

lemma decode_replacement: "DecodeRuneInString ([CHR 0xEF, CHR 0xBF, CHR 0xBD] @ t) = (RuneError, 3)"
  by (simp add: Let_def lead_size_def accept_lo_def accept_hi_def locb_def hicb_def RuneError_def)

lemma decode_dash: "DecodeRuneInString (''-'' @ t) = (45, 1)"
  by (simp add: Let_def)

lemma encode_dash: "EncodeRune 45 = ''-''"
  by (simp add: EncodeRune_def char_of_eq_iff)

text \<open>What the loop appends for one rune is read back by the loop as one rune, and
  appended unchanged.\<close>

lemma piece_fixed:
  assumes d: "DecodeRuneInString s = (r, n)" and ne: "s \<noteq> []"
  shows "sanitize_loop (piece r @ t) [] = piece r @ sanitize_loop t []"
proof -
  have *: "sanitize_loop (p @ t) [] = p @ sanitize_loop t []"
    if "DecodeRuneInString (p @ t) = (r', length p)" "piece r' = p" "p \<noteq> []" for p r'
  proof -
    have "sanitize_loop (p @ t) [] = sanitize_loop (drop (length p) (p @ t)) ([] @ piece r')"
      using that by (intro sanitize_loop_step) simp_all
    also have "\<dots> = sanitize_loop t p" using that by simp
    finally show ?thesis using sanitize_loop_acc [of t p] by simp
  qed
  show ?thesis
  proof (cases "r = RuneError \<and> n = 1")
    case True
    have p': "piece RuneError = [CHR 0xEF, CHR 0xBF, CHR 0xBD]"
      using encode_RuneError by (simp add: piece_def RuneError_def)
    then have p: "piece r = [CHR 0xEF, CHR 0xBF, CHR 0xBD]" using True by simp
    show ?thesis unfolding p
    proof (rule * [where r' = RuneError])
      show "DecodeRuneInString ([CHR 0xEF, CHR 0xBF, CHR 0xBD] @ t)
              = (RuneError, length [CHR 0xEF, CHR 0xBF, CHR 0xBD])"
        using decode_replacement [of t] by simp
      show "piece RuneError = [CHR 0xEF, CHR 0xBF, CHR 0xBD]" by (rule p')
      show "[CHR 0xEF, CHR 0xBF, CHR 0xBD] \<noteq> []" by simp
    qed
  next
    case False
    note V = Decode_valid [OF d ne False]
    show ?thesis
    proof (cases "r = 47")
      case True
      then have p: "piece r = ''-''" by (simp add: piece_def)
      show ?thesis unfolding p
      proof (rule * [where r' = 45])
        show "DecodeRuneInString (''-'' @ t) = (45, length ''-'')"
          using decode_dash [of t] by simp
        show "piece 45 = ''-''" using encode_dash by (simp add: piece_def)
        show "''-'' \<noteq> []" by simp
      qed
    next
      case r: False
      then have p: "piece r = take n s" using V by (simp add: piece_def)
      have len: "length (take n s) = n" using V by simp
      show ?thesis unfolding p
      proof (rule * [where r' = r])
        show "DecodeRuneInString (take n s @ t) = (r, length (take n s))" using V len by simp
        show "piece r = take n s" by (rule p)
        show "take n s \<noteq> []" using V ne by (cases s) auto
      qed
    qed
  qed
qed

lemma sanitize_loop_idem:
  "sanitize_loop (sanitize_loop s []) [] = sanitize_loop s []"
proof (induction s rule: length_induct)
  case (1 s)
  show ?case
  proof (cases "s = []")
    case True
    then show ?thesis by (simp add: sanitize_loop_Nil)
  next
    case False
    obtain r n where d: "DecodeRuneInString s = (r, n)" by (cases "DecodeRuneInString s")
    have n: "1 \<le> n" using DecodeRuneInString_width [OF False] d by simp
    then have l: "length (drop n s) < length s" using False by simp
    have st: "sanitize_loop s [] = piece r @ sanitize_loop (drop n s) []"
      using sanitize_loop_step [OF False d, of "[]"] sanitize_loop_acc [of "drop n s" "piece r"]
      by simp
    have "sanitize_loop (sanitize_loop s []) []
            = piece r @ sanitize_loop (sanitize_loop (drop n s) []) []"
      unfolding st by (rule piece_fixed [OF d False])
    also have "\<dots> = piece r @ sanitize_loop (drop n s) []" using "1.IH" l by simp
    finally show ?thesis using st by simp
  qed
qed

lemma ValidString_ascii: "\<forall>c\<in>set s. byte c < 128 \<Longrightarrow> ValidString s"
proof (induction s)
  case Nil
  then show ?case by (simp add: ValidString_Nil)
next
  case (Cons c s)
  then have "DecodeRuneInString (c # s) = (byte c, 1)" by (simp add: Let_def)
  moreover have "byte c \<noteq> RuneError" using Cons.prems by (auto simp: RuneError_def)
  ultimately show ?case using Cons ValidString_step [of "c # s" "byte c" 1] by simp
qed

lemma sanitize_example_bugfix: "sanitizeBranchName ''bugfix/critical/issue-123'' = ''bugfix-critical-issue-123''"
proof -
  have "ValidString ''bugfix/critical/issue-123''" by (rule ValidString_ascii) simp
  then show ?thesis unfolding sanitizeBranchName_def
    by (simp add: sanitize_loop_valid slash_to_dash_def)
qed
lemma sanitize_example_master: "sanitizeBranchName ''master'' = ''master''"
  unfolding sanitizeBranchName_def
  by (subst sanitize_loop_valid) (simp_all add: ValidString_ascii slash_to_dash_def)
text \<open>
  Counterexample to claim C8 as stated ("performs no other normalization"): the single
  byte \<^verbatim>\<open>0xFF\<close> holds no \<^verbatim>\<open>/\<close>, and the byte-wise replacement leaves it alone,
  but it is not valid UTF-8: the range loop reads it as U+FFFD and appends the three bytes
  of that rune.
\<close>

theorem sanitizeBranchName_invalid_byte:
  "sanitizeBranchName [CHR 0xFF] = [CHR 0xEF, CHR 0xBF, CHR 0xBD]
   \<and> map slash_to_dash [CHR 0xFF] = [CHR 0xFF]"
proof -
  have "DecodeRuneInString [CHR 0xFF] = (RuneError, 1)" by (simp add: Let_def lead_size_def)
  then have "sanitize_loop [CHR 0xFF] [] = sanitize_loop [] ([] @ piece RuneError)"
    using sanitize_loop_step [of "[CHR 0xFF]" RuneError 1 "[]"] by simp
  then show ?thesis
    using encode_RuneError
    by (simp add: sanitizeBranchName_def sanitize_loop_Nil piece_def RuneError_def
        slash_to_dash_def)
qed

lemma last_element_no_slash: "CHR ''/'' \<notin> set (last_element p)"
  by (auto simp: last_element_def dest: set_takeWhileD)

lemma filepath_Base_fixed:
  assumes "filepath_Base x = x"
  shows "x = ''/'' \<or> CHR ''/'' \<notin> set x"
proof (cases "x = [] \<or> last_element (strip_trailing_slashes x) = []")
  case True
  then show ?thesis using assms by (auto simp: filepath_Base_def Let_def split: if_splits)
next
  case False
  then have "x = last_element (strip_trailing_slashes x)"
    using assms by (simp add: filepath_Base_def Let_def)
  then show ?thesis using last_element_no_slash by metis
qed

lemma piece_no_slash:
  assumes "DecodeRuneInString s = (r, n)" "s \<noteq> []"
  shows "CHR ''/'' \<notin> set (piece r)"
proof (cases "r = RuneError \<and> n = 1")
  case True
  then show ?thesis using encode_RuneError by (simp add: piece_def RuneError_def)
next
  case False
  then show ?thesis using piece_valid [OF assms False] by (auto simp: slash_to_dash_def)
qed

lemma sanitize_loop_no_slash: "CHR ''/'' \<notin> set (sanitize_loop s [])"
proof (induction s rule: length_induct)
  case (1 s)
  show ?case
  proof (cases "s = []")
    case True
    then show ?thesis by (simp add: sanitize_loop_Nil)
  next
    case False
    obtain r n where d: "DecodeRuneInString s = (r, n)" by (cases "DecodeRuneInString s")
    have n: "1 \<le> n" using DecodeRuneInString_width [OF False] d by simp
    then have l: "length (drop n s) < length s" using False by simp
    have st: "sanitize_loop s [] = piece r @ sanitize_loop (drop n s) []"
      using sanitize_loop_step [OF False d, of "[]"] sanitize_loop_acc [of "drop n s" "piece r"]
      by simp
    show ?thesis unfolding st using piece_no_slash [OF d False] "1.IH" l by simp
  qed
qed

lemma checkout_agrees:
  assumes "ValidString x" "x \<noteq> ''/''"
  shows "checkout_dirName x = sanitizeBranchName x"
proof (cases "filepath_Base x = x")
  case True
  then have "CHR ''/'' \<notin> set x" using filepath_Base_fixed assms(2) by blast
  then have "map slash_to_dash x = x" by (intro map_idI) (auto simp: slash_to_dash_def)
  then show ?thesis using True assms(1)
    by (simp add: checkout_dirName_def sanitizeBranchName_def sanitize_loop_valid)
next
  case False
  then show ?thesis by (auto simp: checkout_dirName_def sanitizeBranchName_def Let_def)
qed

text \<open>
  Claim C9 says that the directory name computed inline by \<^verbatim>\<open>checkoutCmd\<close> equals
  \<^verbatim>\<open>sanitizeBranchName\<close> of the identifier, for every identifier. At the identifier
  \<^verbatim>\<open>/\<close> it does not: \<^verbatim>\<open>filepath.Base("/")\<close> is \<^verbatim>\<open>/\<close> itself, the test
  \<^verbatim>\<open>commitish != dirName\<close> fails, and the slash is kept, where
  \<^verbatim>\<open>sanitizeBranchName\<close> gives a dash. (\<open>checkout_agrees\<close> above: on every other
  identifier that is valid UTF-8 the two agree.)
\<close>

theorem checkout_dirName_slash:
  "checkout_dirName ''/'' = ''/'' \<and> sanitizeBranchName ''/'' = ''-''"
proof -
  have "filepath_Base ''/'' = ''/''"
    by (simp add: filepath_Base_def strip_trailing_slashes_def last_element_def)
  moreover have "ValidString ''/''" by (rule ValidString_ascii) simp
  ultimately show ?thesis
    by (simp add: checkout_dirName_def sanitizeBranchName_def sanitize_loop_valid slash_to_dash_def)
qed

lemma sanitize_loop_append_valid:
  "ValidString x \<Longrightarrow> sanitize_loop (x @ y) acc = sanitize_loop y (acc @ map slash_to_dash x)"
proof (induction x arbitrary: acc rule: length_induct)
  case (1 x)
  show ?case
  proof (cases "x = []")
    case True
    then show ?thesis by simp
  next
    case False
    obtain r n where d: "DecodeRuneInString x = (r, n)" by (cases "DecodeRuneInString x")
    have v: "\<not> (r = RuneError \<and> n = 1)" "ValidString (drop n x)"
      using "1.prems" ValidString_step [OF False d] by simp_all
    note V = Decode_valid [OF d False v(1)]
    have n: "1 \<le> n" "n \<le> length x" using V by simp_all
    have xy: "x @ y = take n x @ (drop n x @ y)" by simp
    have dxy: "DecodeRuneInString (x @ y) = (r, n)" using V by (subst xy) blast
    have ne: "x @ y \<noteq> []" using False by simp
    have l: "length (drop n x) < length x" using n False by simp
    have "sanitize_loop (x @ y) acc = sanitize_loop (drop n x @ y) (acc @ piece r)"
      using sanitize_loop_step [OF ne dxy, of acc] n by simp
    also have "\<dots> = sanitize_loop y ((acc @ piece r) @ map slash_to_dash (drop n x))"
      using "1.IH" l v(2) by blast
    also have "(acc @ piece r) @ map slash_to_dash (drop n x) = acc @ map slash_to_dash (take n x @ drop n x)"
      using piece_valid [OF d False v(1)] by (simp del: append_take_drop_id)
    finally show ?thesis by simp
  qed
qed

lemma valid_rune_prefix:
  assumes "s \<noteq> []" "DecodeRuneInString s = (r, n)" "\<not> (r = RuneError \<and> n = 1)"
  shows "take n s \<noteq> [] \<and> prefix (take n s) s \<and> ValidString (take n s)"
proof -
  note V = Decode_valid [OF assms(2,1,3)]
  have ne: "take n s \<noteq> []" using V assms(1) by (cases s) auto
  have d: "DecodeRuneInString (take n s) = (r, n)" using V by (metis append_Nil2)
  have "drop n (take n s) = []" by simp
  then have "ValidString (take n s)"
    using ValidString_step [OF ne d] assms(3) by (simp add: ValidString_Nil)
  then show ?thesis using ne by (simp add: take_is_prefix)
qed

lemma sanitize_loop_invalid:
  assumes "\<forall>p. p \<noteq> [] \<longrightarrow> prefix p (c # y) \<longrightarrow> \<not> ValidString p"
  shows "sanitize_loop (c # y) [] = [CHR 0xEF, CHR 0xBF, CHR 0xBD] @ sanitize_loop y []"
proof -
  obtain r n where d: "DecodeRuneInString (c # y) = (r, n)" by (cases "DecodeRuneInString (c # y)")
  have "r = RuneError \<and> n = 1"
  proof (rule ccontr)
    assume "\<not> (r = RuneError \<and> n = 1)"
    then show False using valid_rune_prefix [OF _ d] assms by blast
  qed
  then have "sanitize_loop (c # y) [] = sanitize_loop y ([] @ piece RuneError)"
    using sanitize_loop_step [of "c # y" r n "[]"] d by simp
  also have "\<dots> = piece RuneError @ sanitize_loop y []"
    using sanitize_loop_acc [of y "piece RuneError"] by simp
  also have "piece RuneError = [CHR 0xEF, CHR 0xBF, CHR 0xBD]"
    by (simp add: piece_def encode_RuneError) (simp add: RuneError_def)
  finally show ?thesis .
qed

text \<open>
  Claim C8, amended: \<^verbatim>\<open>sanitizeBranchName\<close> is a total function (a HOL function of
  its argument alone, so deterministic and pure), and these equations determine it on
  every input. A front part \<open>x\<close> that is valid UTF-8 comes out with every \<^verbatim>\<open>/\<close>
  replaced by \<^verbatim>\<open>-\<close> and nothing else changed, and the rest \<open>y\<close> is sanitized on its
  own. A byte \<open>c\<close> at which no valid UTF-8 sequence starts (no non-empty prefix of
  \<open>c # y\<close> is valid UTF-8) comes out as the three bytes \<^verbatim>\<open>EF BF BD\<close> of U+FFFD, and
  the rest \<open>y\<close> is sanitized on its own. So on valid UTF-8 the function is the
  replacement of every \<^verbatim>\<open>/\<close> by \<^verbatim>\<open>-\<close>. On every input the result holds no
  \<^verbatim>\<open>/\<close>, and sanitizing twice is sanitizing once. The two examples of the
  specification hold.
\<close>

theorem sanitizeBranchName_spec:
  "(ValidString x \<longrightarrow> sanitizeBranchName (x @ y) = map slash_to_dash x @ sanitizeBranchName y)
   \<and> ((\<forall>p. p \<noteq> [] \<longrightarrow> prefix p (c # y) \<longrightarrow> \<not> ValidString p) \<longrightarrow>
        sanitizeBranchName (c # y) = [CHR 0xEF, CHR 0xBF, CHR 0xBD] @ sanitizeBranchName y)
   \<and> (ValidString x \<longrightarrow> sanitizeBranchName x = map slash_to_dash x)
   \<and> CHR ''/'' \<notin> set (sanitizeBranchName x)
   \<and> sanitizeBranchName (sanitizeBranchName x) = sanitizeBranchName x
   \<and> sanitizeBranchName ''bugfix/critical/issue-123'' = ''bugfix-critical-issue-123''
   \<and> sanitizeBranchName ''master'' = ''master''"
proof -
  have a: "ValidString x \<longrightarrow> sanitizeBranchName (x @ y) = map slash_to_dash x @ sanitizeBranchName y"
    using sanitize_loop_acc [of y "map slash_to_dash x"]
    by (simp add: sanitizeBranchName_def sanitize_loop_append_valid)
  have b: "(\<forall>p. p \<noteq> [] \<longrightarrow> prefix p (c # y) \<longrightarrow> \<not> ValidString p) \<longrightarrow>
        sanitizeBranchName (c # y) = [CHR 0xEF, CHR 0xBF, CHR 0xBD] @ sanitizeBranchName y"
    using sanitize_loop_invalid [of c y] unfolding sanitizeBranchName_def by blast
  show ?thesis
    using a b sanitize_example_bugfix sanitize_example_master
    by (simp add: sanitizeBranchName_def sanitize_loop_valid sanitize_loop_no_slash sanitize_loop_idem)
qed

text \<open>The equations at work: a valid front part, an invalid byte, and both in one
  identifier.\<close>

lemma not_valid_FF: "\<not> ValidString (CHR 0xFF # t)"
proof -
  have "DecodeRuneInString (CHR 0xFF # t) = (RuneError, 1)" by (simp add: Let_def lead_size_def)
  then show ?thesis using ValidString_step [of "CHR 0xFF # t" RuneError 1] by simp
qed

theorem sanitizeBranchName_spec_witness:
  "ValidString ''feature/new''
   \<and> sanitizeBranchName (''feature/new'' @ [CHR 0xFF, CHR ''/'']) = ''feature-new'' @ [CHR 0xEF, CHR 0xBF, CHR 0xBD, CHR ''-'']
   \<and> sanitizeBranchName [CHR 0xFF, CHR ''/''] = [CHR 0xEF, CHR 0xBF, CHR 0xBD, CHR ''-'']
   \<and> sanitizeBranchName ''feature/new'' = ''feature-new''"
proof -
  have v: "ValidString ''feature/new''" by (rule ValidString_ascii) simp
  have v1: "ValidString ''/''" by (rule ValidString_ascii) simp
  have inv: "\<forall>p. p \<noteq> [] \<longrightarrow> prefix p (CHR 0xFF # ''/'') \<longrightarrow> \<not> ValidString p"
    by (auto simp: prefix_Cons not_valid_FF)
  note T1 = sanitizeBranchName_spec [of "''feature/new''" "[CHR 0xFF, CHR ''/'']" "CHR 0xFF"]
  note T2 = sanitizeBranchName_spec [of "''/''" "[]" "CHR 0xFF"]
  note T3 = sanitizeBranchName_spec [of "''feature/new''" "''/''" "CHR 0xFF"]
  have e: "sanitizeBranchName [] = []"
    using sanitizeBranchName_spec [of "[]" "[]" "CHR 0xFF"] by (simp add: ValidString_Nil)
  have s1: "sanitizeBranchName ''/'' = ''-''" using T2 v1 e by (simp add: slash_to_dash_def)
  have s2: "sanitizeBranchName [CHR 0xFF, CHR ''/''] = [CHR 0xEF, CHR 0xBF, CHR 0xBD, CHR ''-'']"
    using T3 inv s1 by simp
  have s3: "sanitizeBranchName (''feature/new'' @ [CHR 0xFF, CHR ''/''])
              = ''feature-new'' @ [CHR 0xEF, CHR 0xBF, CHR 0xBD, CHR ''-'']"
    using T1 v s2 by (simp add: slash_to_dash_def)
  have s4: "sanitizeBranchName ''feature/new'' = ''feature-new''"
    using T1 v by (simp add: slash_to_dash_def)
  show ?thesis using v s2 s3 s4 by simp
qed
section \<open>The store that is not there (claim C10)\<close>

text \<open>
  Claim C10: a restore of a single path (\<^verbatim>\<open>--all\<close> not given, one argument) in a
  repository whose shared store directory does not exist (\<^verbatim>\<open>os.Stat\<close> fails and
  \<^verbatim>\<open>os.IsNotExist\<close> holds of the error) fails with the no-persisted-files error, whatever
  the path, the flags and the fuel are, and returns the file tree as it was: the path is
  not looked up, the destination is not examined, nothing is written.
\<close>

theorem restoreCmd_store_missing:
  assumes single: "\<not> restoreAll fl"
    and missing: "os_Stat fs (filepath_Join bareRepoRoot ''shared'') = Inl err" "IsNotExist err"
  shows "restoreCmd fuel fl (Inr (bareRepoRoot, worktreeRoot)) [targetPath] fs
           = Some (Some (Errorf
               ''no persisted files found. Use 'wtm persist add <file>' to persist files first''), fs)"
  using assms by (simp add: restoreCmd_def)

text \<open>Witness for C10: a repository with a workspace and no \<^verbatim>\<open>shared\<close> directory.\<close>

definition fs_no_store :: filesys where
  "fs_no_store =
     \<lparr>nodes = [([''repo''], Dir 493), ([''repo'', ''workspace''], Dir 493),
               ([''repo'', ''workspace'', ''.env''], File ''old'' 420)],
      umask = 18, cwd = [''repo'', ''workspace'']\<rparr>"

definition flags_default :: flags where
  "flags_default = \<lparr>restoreLink = False, restoreTo = [], restoreForce = False, restoreAll = False\<rparr>"

theorem restoreCmd_store_missing_witness:
  "restoreCmd 1 (flags_default\<lparr>restoreForce := True\<rparr>) (Inr (''/repo'', ''/repo/workspace'')) [''.env'']
       fs_no_store
     = Some (Some (Errorf
         ''no persisted files found. Use 'wtm persist add <file>' to persist files first''),
         fs_no_store)"
proof -
  have s: "os_Stat fs_no_store (filepath_Join ''/repo'' ''shared'')
             = Inl (PathError ''stat'' ''/repo/shared'' ENOENT)"
    by code_simp
  have f: "\<not> restoreAll (flags_default\<lparr>restoreForce := True\<rparr>)"
    by (simp add: flags_default_def)
  have i: "IsNotExist (PathError ''stat'' ''/repo/shared'' ENOENT)"
    by (simp add: IsNotExist_def)
  show ?thesis by (rule restoreCmd_store_missing [OF f s i])
qed

section \<open>Bulk restore under a destination override (claim C7)\<close>

section \<open>Bulk restore under a destination override (claim C7)\<close>

text \<open>
  \<^verbatim>\<open>restoreAllFiles\<close> hands every top-level entry of the store to \<^verbatim>\<open>restoreFile\<close>, and
  \<^verbatim>\<open>restoreFile\<close> reads the package variable \<^verbatim>\<open>restoreTo\<close> whoever calls it. The command
  refuses a file argument next to \<^verbatim>\<open>--all\<close>, but not \<^verbatim>\<open>--to\<close>.
\<close>

definition flags_all_to_foo :: flags where
  "flags_all_to_foo = \<lparr>restoreLink = False, restoreTo = ''foo'', restoreForce = False, restoreAll = True\<rparr>"

text \<open>
  Claim C7: a bulk restore sends each top-level entry of the store to the worktree root
  joined with the entry's own relative path, whatever destination override is in effect.
  The run below is \<^verbatim>\<open>wtm restore --all --to foo\<close> in the worktree \<^verbatim>\<open>/repo/workspace\<close> over
  the store of \<open>fs0\<close>, which holds the file \<^verbatim>\<open>.env\<close> and the directory \<^verbatim>\<open>d\<close>. The
  first entry is copied to \<^verbatim>\<open>/repo/workspace/foo\<close>, the second is refused because
  \<^verbatim>\<open>/repo/workspace/foo\<close> exists by then, and nothing arrives at
  \<^verbatim>\<open>/repo/workspace/.env\<close> or \<^verbatim>\<open>/repo/workspace/d\<close>.
\<close>

theorem restoreAllFiles_override:
  "(case restoreAllFiles 5 flags_all_to_foo ''/repo/shared'' ''/repo/workspace'' fs0 of
      None \<Rightarrow> False
    | Some (r, st) \<Rightarrow>
        r = Some (Errorf ''some files failed to restore'')
        \<and> count st = 1
        \<and> errors st = [''  '' @ cross_mark @ '' d: file already exists: /repo/workspace/foo\<newline>Use --force to overwrite'']
        \<and> lookup (nodes (rs_fs st)) [''repo'', ''workspace'', ''foo''] = Inr (File ''SECRET'' 384)
        \<and> lookup (nodes (rs_fs st)) [''repo'', ''workspace'', ''.env''] = Inl ENOENT
        \<and> lookup (nodes (rs_fs st)) [''repo'', ''workspace'', ''d''] = Inl ENOENT)"
  by code_simp


end
